theory Spec2Isabelle
  imports Main
begin

section \<open>The built-in evaluator operators \<open>ipow\<close>, \<open>nth\<close> and \<open>item\<close>\<close>

text \<open>
  The runtime values the three operators touch. Integers are JavaScript \<open>bigint\<close>s
  (unbounded, hence \<open>int\<close>); tuples and lists share one representation and \<open>toList\<close>
  reads both. The accessors \<open>toInt\<close> and \<open>toList\<close> throw on a value of another shape,
  so an evaluation either throws or returns an \<open>Either\<close>.
\<close>

datatype RuntimeValue =
    RvBool bool
  | RvInt int
  | RvStr string
  | RvTupleOrList "RuntimeValue list"

datatype 'a outcome = Throws string | Returns 'a

text \<open>
  A JavaScript \<open>number\<close> that came from a \<open>bigint\<close> (or from such a number minus one) is
  an integer-valued double or an infinity.
\<close>

datatype number = Finite int | PosInfinity | NegInfinity

text \<open>A template literal: its text pieces and the numbers interpolated between them.\<close>

datatype part = Lit string | Interp number

record QuintError =
  code :: string
  message :: "part list"

type_synonym 'a EitherQ = "QuintError + 'a"

definition toInt :: "RuntimeValue \<Rightarrow> int outcome" where
  "toInt v = (case v of RvInt i \<Rightarrow> Returns i | _ \<Rightarrow> Throws ''Expected an integer value'')"

definition toList :: "RuntimeValue \<Rightarrow> RuntimeValue list outcome" where
  "toList v = (case v of RvTupleOrList l \<Rightarrow> Returns l | _ \<Rightarrow> Throws ''Expected a list value'')"

text \<open>\<open>args[k].m()\<close>: reading past the end of the array yields \<open>undefined\<close>, whose method call throws.\<close>

definition arg :: "RuntimeValue list \<Rightarrow> nat \<Rightarrow> RuntimeValue outcome" where
  "arg args k = (if k < length args then Returns (args ! k) else Throws ''TypeError'')"

fun obind :: "'a outcome \<Rightarrow> ('a \<Rightarrow> 'b outcome) \<Rightarrow> 'b outcome" where
  "obind (Throws s) f = Throws s"
| "obind (Returns x) f = f x"

subsection \<open>Conversion of a \<open>bigint\<close> to a \<open>number\<close>\<close>

text \<open>
  \<open>Number(b)\<close> is the double nearest to \<open>b\<close>, ties to the even significand, and an
  infinity from \<open>2^1024\<close> on. A magnitude below \<open>2^53\<close> is exact; a larger one keeps its
  53 leading bits.
\<close>

function bitLength :: "int \<Rightarrow> nat" where
  "bitLength m = (if m \<le> 0 then 0 else Suc (bitLength (m div 2)))"
  by pat_completeness auto
termination
  by (relation "measure nat") auto

declare bitLength.simps [simp del]

definition roundMagnitude :: "int \<Rightarrow> int" where
  "roundMagnitude m =
     (if m < 2 ^ 53 then m
      else let shift = bitLength m - 53;
               q = m div 2 ^ shift;
               r = m mod 2 ^ shift;
               half = 2 ^ (shift - 1);
               q' = (if half < r \<or> (r = half \<and> odd q) then q + 1 else q)
           in q' * 2 ^ shift)"

definition Number :: "int \<Rightarrow> number" where
  "Number b =
     (let m = roundMagnitude \<bar>b\<bar> in
      if 2 ^ 1024 \<le> m then (if b < 0 then NegInfinity else PosInfinity)
      else Finite (if b < 0 then - m else m))"

text \<open>\<open>x - 1\<close> on numbers: the exact difference, rounded; an infinity stays.\<close>

definition minusOne :: "number \<Rightarrow> number" where
  "minusOne x = (case x of Finite a \<Rightarrow> Number (a - 1) | _ \<Rightarrow> x)"

subsection \<open>The operators\<close>

text \<open>
  \<open>getListElem(list, idx)\<close>: the guard \<open>idx >= 0n && idx < list.size\<close>, then
  \<open>list.get\<close>, whose result is tested for being defined.
\<close>

definition inBounds :: "number \<Rightarrow> nat \<Rightarrow> bool" where
  "inBounds idx sz = (case idx of Finite a \<Rightarrow> 0 \<le> a \<and> a < int sz | _ \<Rightarrow> False)"

definition listGet :: "'a list \<Rightarrow> number \<Rightarrow> 'a option" where
  "listGet l idx =
     (case idx of
        Finite a \<Rightarrow> (if 0 \<le> a \<and> a < int (length l) then Some (l ! nat a) else None)
      | _ \<Rightarrow> None)"

definition outOfBounds :: "number \<Rightarrow> QuintError" where
  "outOfBounds idx =
     \<lparr> code = ''QNT510'', message = [Lit ''Out of bounds, nth('', Interp idx, Lit '')''] \<rparr>"

definition getListElem :: "RuntimeValue list \<Rightarrow> number \<Rightarrow> RuntimeValue EitherQ" where
  "getListElem l idx =
     (if inBounds idx (length l)
      then (case listGet l idx of Some elem \<Rightarrow> Inr elem | None \<Rightarrow> Inl (outOfBounds idx))
      else Inl (outOfBounds idx))"

text \<open>The \<open>case 'ipow'\<close>, \<open>case 'item'\<close> and \<open>case 'nth'\<close> arms of \<open>builtinLambda\<close>.\<close>

definition builtinLambda_ipow :: "RuntimeValue list \<Rightarrow> RuntimeValue EitherQ outcome" where
  "builtinLambda_ipow args =
     obind (obind (arg args 0) toInt) (\<lambda>base.
     obind (obind (arg args 1) toInt) (\<lambda>exp.
       if base = 0 \<and> exp = 0
       then Returns (Inl \<lparr> code = ''QNT503'', message = [Lit ''0^0 is undefined''] \<rparr>)
       else if exp < 0
       then Returns (Inl \<lparr> code = ''QNT503'', message = [Lit ''i^j is undefined for j < 0''] \<rparr>)
       else Returns (Inr (RvInt (base ^ nat exp)))))"

definition builtinLambda_item :: "RuntimeValue list \<Rightarrow> RuntimeValue EitherQ outcome" where
  "builtinLambda_item args =
     obind (obind (arg args 0) toList) (\<lambda>l.
     obind (obind (arg args 1) toInt) (\<lambda>i.
       Returns (getListElem l (minusOne (Number i)))))"

definition builtinLambda_nth :: "RuntimeValue list \<Rightarrow> RuntimeValue EitherQ outcome" where
  "builtinLambda_nth args =
     obind (obind (arg args 0) toList) (\<lambda>l.
     obind (obind (arg args 1) toInt) (\<lambda>i.
       Returns (getListElem l (Number i))))"

section \<open>Effects and their unification\<close>

subsection \<open>The data model\<close>

datatype ComponentKind = Read | Update | Temporal

record StateVariable =
  name :: string
  reference :: int

text \<open>
  \<open>Variables\<close>: a list of state variables, a quantified name (with its optional
  reference) or a union of variables.
\<close>

datatype Variables =
    ConcreteV "StateVariable list"
  | QuantifiedV string "int option"
  | UnionV "Variables list"

record EffectComponent =
  kind :: ComponentKind
  variables :: Variables

datatype Effect =
    ConcreteE "EffectComponent list"
  | ArrowE "Effect list" Effect
  | QuantifiedE string

text \<open>A quantified name refers to an effect or to variables.\<close>

datatype Name = EffectName string | VariableName string

text \<open>A substitution binds a name to variables or to an effect; substitutions are an array of them.\<close>

datatype Substitution = SubVariable string Variables | SubEffect string Effect

type_synonym Substitutions = "Substitution list"

text \<open>
  An error tree holds a location, an optional message and children. An \<open>Error\<close> is one tree
  or an array of trees (what \<open>mergeInMany\<close> collects).
\<close>

datatype ErrorTree = ErrorTree string "string option" "ErrorTree list"

datatype Error = One ErrorTree | Many "ErrorTree list"

definition emptyVariables :: Variables where
  "emptyVariables = ConcreteV []"

subsection \<open>The collaborators of the unifier\<close>

text \<open>
  The unifier calls the printing, substitution and simplification modules. They are
  parameters of the model: every theorem about the unifier holds for whatever these
  functions compute.
\<close>

record externals =
  effectToString :: "Effect \<Rightarrow> string"
  variablesToString :: "Variables \<Rightarrow> string"
  effectComponentToString :: "EffectComponent \<Rightarrow> string"
  simplify :: "Effect \<Rightarrow> Effect"
  flattenUnions :: "Variables \<Rightarrow> Variables"
  applySubstitution :: "Substitutions \<Rightarrow> Effect \<Rightarrow> ErrorTree + Effect"
  applySubstitutionToVariables :: "Substitutions \<Rightarrow> Variables \<Rightarrow> Variables"
  compose :: "Substitutions \<Rightarrow> Substitutions \<Rightarrow> Error + Substitutions"

text \<open>
  Modelled from the spec: the error-tree module is not among the sources. A leaf is a
  location with a message and no children; a tree wraps the child error (one tree or an
  array of trees) with a context frame, the location.
\<close>

definition buildErrorLeaf :: "string \<Rightarrow> string \<Rightarrow> ErrorTree" where
  "buildErrorLeaf location msg = ErrorTree location (Some msg) []"

definition buildErrorTree :: "string \<Rightarrow> Error \<Rightarrow> ErrorTree" where
  "buildErrorTree location err =
     ErrorTree location None (case err of One t \<Rightarrow> [t] | Many ts \<Rightarrow> ts)"

subsection \<open>Results: an \<open>Either\<close>, or no result when the recursion budget is spent\<close>

text \<open>
  \<open>unify\<close> and \<open>unifyVariables\<close> recurse on what the collaborators return, so they
  take a recursion budget; \<open>None\<close> is the run that has not returned within it. The
  left type is an \<open>ErrorTree\<close>, an \<open>Error\<close> or a message, as the source types it.
\<close>

type_synonym ('e, 'a) attempt = "('e + 'a) option"

definition chain :: "('e, 'a) attempt \<Rightarrow> ('a \<Rightarrow> ('e, 'b) attempt) \<Rightarrow> ('e, 'b) attempt" where
  "chain r f = (case r of None \<Rightarrow> None | Some (Inl e) \<Rightarrow> Some (Inl e) | Some (Inr x) \<Rightarrow> f x)"

definition mapLeft :: "('e \<Rightarrow> 'f) \<Rightarrow> ('e, 'a) attempt \<Rightarrow> ('f, 'a) attempt" where
  "mapLeft f r =
     (case r of None \<Rightarrow> None | Some (Inl e) \<Rightarrow> Some (Inl (f e)) | Some (Inr x) \<Rightarrow> Some (Inr x))"

definition mapRight :: "('a \<Rightarrow> 'b) \<Rightarrow> ('e, 'a) attempt \<Rightarrow> ('e, 'b) attempt" where
  "mapRight f r =
     (case r of None \<Rightarrow> None | Some (Inl e) \<Rightarrow> Some (Inl e) | Some (Inr x) \<Rightarrow> Some (Inr (f x)))"

text \<open>
  \<open>mergeInMany\<close> of the \<open>Either\<close> library: the array of the right values, or the array of
  every left value when there is one. Its argument array is computed first, so a member
  that does not return leaves no result.
\<close>

fun lefts :: "('e + 'a) list \<Rightarrow> 'e list" where
  "lefts [] = []"
| "lefts (Inl e # rs) = e # lefts rs"
| "lefts (Inr x # rs) = lefts rs"

fun rights :: "('e + 'a) list \<Rightarrow> 'a list" where
  "rights [] = []"
| "rights (Inl e # rs) = rights rs"
| "rights (Inr x # rs) = x # rights rs"

definition mergeInMany :: "('e, 'a) attempt list \<Rightarrow> ('e list, 'a list) attempt" where
  "mergeInMany rs =
     (if None \<in> set rs then None
      else (case lefts (map the rs) of
              [] \<Rightarrow> Some (Inr (rights (map the rs)))
            | e # es \<Rightarrow> Some (Inl (e # es))))"

subsection \<open>Names and bindings\<close>

fun variablesNames :: "Variables \<Rightarrow> Name list" where
  "variablesNames (ConcreteV vars) = []"
| "variablesNames (QuantifiedV n r) = [VariableName n]"
| "variablesNames (UnionV vs) = concat (map variablesNames vs)"

fun effectNames :: "Effect \<Rightarrow> Name list" where
  "effectNames (ConcreteE cs) = concat (map (\<lambda>c. variablesNames (variables c)) cs)"
| "effectNames (ArrowE ps r) = concat (map effectNames ps) @ effectNames r"
| "effectNames (QuantifiedE n) = [EffectName n]"

definition bindEffect :: "externals \<Rightarrow> string \<Rightarrow> Effect \<Rightarrow> string + Substitutions" where
  "bindEffect ext n effect =
     (if EffectName n \<in> set (effectNames effect)
      then Inl (''Can't bind '' @ n @ '' to '' @ effectToString ext effect @ '': cyclical binding'')
      else Inr [SubEffect n effect])"

definition bindVariables :: "externals \<Rightarrow> string \<Rightarrow> Variables \<Rightarrow> string + Substitutions" where
  "bindVariables ext n vs =
     (if VariableName n \<in> set (variablesNames vs)
      then Inl (''Can't bind '' @ n @ '' to '' @ variablesToString ext vs @ '': cyclical binding'')
      else Inr [SubVariable n vs])"

subsection \<open>Unification of variables\<close>

text \<open>\<open>xs.join(sep)\<close> on an array of strings.\<close>

fun join :: "string \<Rightarrow> string list \<Rightarrow> string" where
  "join sep [] = []"
| "join sep [x] = x"
| "join sep (x # y # ys) = x @ sep @ join sep (y # ys)"

definition namesOf :: "StateVariable list \<Rightarrow> string list" where
  "namesOf vars = map name vars"

fun unifyVariables ::
  "externals \<Rightarrow> nat \<Rightarrow> Variables \<Rightarrow> Variables \<Rightarrow> (ErrorTree, Substitutions) attempt" where
  "unifyVariables ext 0 va vb = None"
| "unifyVariables ext (Suc fuel) va vb =
     (let v1 = flattenUnions ext va;
          v2 = flattenUnions ext vb;
          location = ''Trying to unify variables ['' @ variablesToString ext v1 @ ''] and [''
                     @ variablesToString ext v2 @ '']''
      in case (v1, v2) of
           (ConcreteV vars1, ConcreteV vars2) \<Rightarrow>
             if set (namesOf vars1) = set (namesOf vars2) then Some (Inr [])
             else Some (Inl (ErrorTree location
                    (Some (''Expected variables ['' @ join '','' (namesOf vars1) @ ''] and [''
                           @ join '','' (namesOf vars2) @ ''] to be the same'')) []))
         | (QuantifiedV n1 r1, QuantifiedV n2 r2) \<Rightarrow>
             if n1 = n2 then Some (Inr [])
             else mapLeft (buildErrorLeaf location) (Some (bindVariables ext n1 v2))
         | (QuantifiedV n1 r1, _) \<Rightarrow>
             mapLeft (buildErrorLeaf location) (Some (bindVariables ext n1 v2))
         | (_, QuantifiedV n2 r2) \<Rightarrow>
             mapLeft (buildErrorLeaf location) (Some (bindVariables ext n2 v1))
         | (UnionV vs1, ConcreteV vars2) \<Rightarrow>
             if v1 = v2 then Some (Inr [])
             else mapLeft (\<lambda>err. buildErrorTree location (Many err))
                    (mapRight concat (mergeInMany (map (\<lambda>v. unifyVariables ext fuel v v2) vs1)))
         | (ConcreteV vars1, UnionV vs2) \<Rightarrow>
             if v1 = v2 then Some (Inr [])
             else unifyVariables ext fuel v2 v1
         | (UnionV vs1, UnionV vs2) \<Rightarrow>
             if v1 = v2 then Some (Inr [])
             else Some (Inl (ErrorTree location
                    (Some ''Unification for unions of variables is not implemented'') [])))"

subsection \<open>Unification of concrete effects\<close>

definition compatibleComponentKinds :: "ComponentKind list list" where
  "compatibleComponentKinds = [[Read, Update], [Read, Temporal]]"

definition areCompatible :: "EffectComponent \<Rightarrow> EffectComponent \<Rightarrow> bool" where
  "areCompatible c1 c2 =
     list_ex (\<lambda>kinds. kind c1 \<in> set kinds \<and> kind c2 \<in> set kinds)
       compatibleComponentKinds"

definition isDominant :: "EffectComponent \<Rightarrow> EffectComponent \<Rightarrow> bool" where
  "isDominant c1 c2 = (kind c1 = Update \<and> kind c2 = Temporal)"

text \<open>The string a component kind is in the source: \<open>'read' | 'update' | 'temporal'\<close>.\<close>

fun kindString :: "ComponentKind \<Rightarrow> string" where
  "kindString Read = ''read''"
| "kindString Update = ''update''"
| "kindString Temporal = ''temporal''"

text \<open>
  The decision \<open>unifyConcrete\<close> takes for one pair of components \<open>ca\<close> of the first
  effect and \<open>cb\<close> of the second, under the substitutions \<open>subs\<close> accumulated so far
  (the body of its innermost callback).
\<close>

definition unifyComponents ::
  "externals \<Rightarrow> nat \<Rightarrow> string \<Rightarrow> Substitutions \<Rightarrow> EffectComponent \<Rightarrow> EffectComponent
     \<Rightarrow> (Error, Substitutions) attempt" where
  "unifyComponents ext fuel location subs ca cb =
     (let c1 = ca\<lparr>variables := applySubstitutionToVariables ext subs (variables ca)\<rparr>;
          c2 = cb\<lparr>variables := applySubstitutionToVariables ext subs (variables cb)\<rparr>
      in if kind c1 = kind c2
           then mapLeft One (unifyVariables ext fuel (variables c1) (variables c2))
         else if areCompatible c1 c2
           then Some (Inr [])
         else if isDominant c1 c2
           then mapLeft One (unifyVariables ext fuel (ConcreteV []) (variables c2))
         else if isDominant c2 c1
           then mapLeft One (unifyVariables ext fuel (variables c1) (ConcreteV []))
         else Some (Inl (One (ErrorTree location
                (Some (''Can't unify '' @ kindString (kind c1) @ '' '' @ effectComponentToString ext c1
                       @ '' and '' @ kindString (kind c2) @ '' '' @ effectComponentToString ext c2))
                []))))"

text \<open>One step of the inner \<open>reduce\<close>: the pair's substitutions composed onto the accumulator.\<close>

definition generalStep ::
  "externals \<Rightarrow> nat \<Rightarrow> string \<Rightarrow> EffectComponent \<Rightarrow> (Error, Substitutions) attempt
     \<Rightarrow> EffectComponent \<Rightarrow> (Error, Substitutions) attempt" where
  "generalStep ext fuel location ca innerResult cb =
     chain (chain innerResult (\<lambda>subs. unifyComponents ext fuel location subs ca cb))
       (\<lambda>s. chain innerResult (\<lambda>s2. Some (compose ext s2 s)))"

definition generalResult ::
  "externals \<Rightarrow> nat \<Rightarrow> string \<Rightarrow> EffectComponent list \<Rightarrow> EffectComponent list
     \<Rightarrow> (Error, Substitutions) attempt" where
  "generalResult ext fuel location cs1 cs2 =
     foldl (\<lambda>result ca. foldl (generalStep ext fuel location ca) result cs2) (Some (Inr [])) cs1"

text \<open>A component of \<open>cs1\<close> whose kind no component of \<open>cs2\<close> has is nullified.\<close>

definition e1Result ::
  "externals \<Rightarrow> nat \<Rightarrow> EffectComponent list \<Rightarrow> EffectComponent list
     \<Rightarrow> (Error, Substitutions) attempt" where
  "e1Result ext fuel cs1 cs2 =
     foldl (\<lambda>result c2. chain result (\<lambda>subs.
              if \<not> list_ex (\<lambda>c1. kind c1 = kind c2) cs2
              then chain (mapLeft One (unifyVariables ext fuel (variables c2) (ConcreteV [])))
                     (\<lambda>s. Some (compose ext subs s))
              else Some (Inr subs)))
       (Some (Inr [])) cs1"

definition e2Result ::
  "externals \<Rightarrow> nat \<Rightarrow> EffectComponent list \<Rightarrow> EffectComponent list
     \<Rightarrow> (Error, Substitutions) attempt" where
  "e2Result ext fuel cs1 cs2 =
     foldl (\<lambda>result c2. chain result (\<lambda>subs.
              if \<not> list_ex (\<lambda>c1. kind c1 = kind c2) cs1
              then chain (mapLeft One (unifyVariables ext fuel (ConcreteV []) (variables c2)))
                     (\<lambda>s. Some (compose ext subs s))
              else Some (Inr subs)))
       (Some (Inr [])) cs2"

text \<open>
  The three results are computed before they are chained, so \<open>unifyConcrete\<close> returns
  only when each of them has.
\<close>

definition unifyConcrete ::
  "externals \<Rightarrow> nat \<Rightarrow> string \<Rightarrow> EffectComponent list \<Rightarrow> EffectComponent list
     \<Rightarrow> (Error, Substitutions) attempt" where
  "unifyConcrete ext fuel location cs1 cs2 =
     (let g = generalResult ext fuel location cs1 cs2;
          r1 = e1Result ext fuel cs1 cs2;
          r2 = e2Result ext fuel cs1 cs2
      in if g = None \<or> r1 = None \<or> r2 = None then None
         else chain (chain r1 (\<lambda>s1. chain r2 (\<lambda>s2. Some (compose ext s1 s2))))
                (\<lambda>s1. chain g (\<lambda>s2. Some (compose ext s1 s2))))"

subsection \<open>Tuple unpacking\<close>

text \<open>Decimal digits of a length, as a template literal prints it.\<close>

fun showNat :: "nat \<Rightarrow> string" where
  "showNat n = (if n < 10 then [''0123456789'' ! n]
                else showNat (n div 10) @ [''0123456789'' ! (n mod 10)])"

declare showNat.simps [simp del]

text \<open>
  The \<open>Map\<close> from component kind to the variables collected for it keeps its keys in the
  order of their first insertion.
\<close>

fun pushVariables ::
  "ComponentKind \<Rightarrow> Variables \<Rightarrow> (ComponentKind \<times> Variables list) list
     \<Rightarrow> (ComponentKind \<times> Variables list) list" where
  "pushVariables k v [] = [(k, [v])]"
| "pushVariables k v ((k', vs) # m) =
     (if k = k' then (k', vs @ [v]) # m else (k', vs) # pushVariables k v m)"

text \<open>
  The callback of \<open>effects2.forEach\<close>: a concrete effect adds each of its components'
  variables; for any other effect the callback returns a value that \<open>forEach\<close> drops, so
  the map is left as it is.
\<close>

fun collectVariables ::
  "(ComponentKind \<times> Variables list) list \<Rightarrow> Effect \<Rightarrow> (ComponentKind \<times> Variables list) list" where
  "collectVariables m (ConcreteE cs) = foldl (\<lambda>m c. pushVariables (kind c) (variables c) m) m cs"
| "collectVariables m e = m"

definition unpacked :: "Effect list \<Rightarrow> Effect" where
  "unpacked effects2 =
     ConcreteE (map (\<lambda>(k, vs). \<lparr> kind = k, variables = UnionV vs \<rparr>)
                  (foldl collectVariables [] effects2))"

function tryToUnpack ::
  "externals \<Rightarrow> string \<Rightarrow> Effect list \<Rightarrow> Effect list \<Rightarrow> ErrorTree + (Effect list \<times> Effect list)" where
  "tryToUnpack ext location effects1 effects2 =
     (if length effects2 < length effects1 then tryToUnpack ext location effects2 effects1
      else if length effects1 \<noteq> 1
        then Inl (buildErrorLeaf location
               (''Expected '' @ showNat (length effects2) @ '' arguments, got ''
                @ showNat (length effects1)))
      else Inr (effects1, [simplify ext (unpacked effects2)]))"
  by pat_completeness auto
termination
  by (relation "measure (\<lambda>(ext, location, effects1, effects2).
        if length effects2 < length effects1 then 1 else 0)") auto

declare tryToUnpack.simps [simp del]

subsection \<open>Arrow effects\<close>

text \<open>
  \<open>hashVariables\<close>: in a union, the quantified members (after hashing the members) are
  replaced by one quantified variable named by their names joined with \<open>#\<close>.
\<close>

fun isQuantifiedV :: "Variables \<Rightarrow> bool" where
  "isQuantifiedV (QuantifiedV n r) = True"
| "isQuantifiedV v = False"

fun quantifiedName :: "Variables \<Rightarrow> string" where
  "quantifiedName (QuantifiedV n r) = n"
| "quantifiedName v = []"

fun hashVariables :: "Variables \<Rightarrow> Variables" where
  "hashVariables (ConcreteV vars) = ConcreteV vars"
| "hashVariables (QuantifiedV n r) = QuantifiedV n r"
| "hashVariables (UnionV vs) =
     (let nested = map hashVariables vs;
          names = map quantifiedName (filter isQuantifiedV nested);
          others = filter (\<lambda>v. \<not> isQuantifiedV v) nested
      in if names = []
         then (if others \<noteq> [] then UnionV others else emptyVariables)
         else (if others \<noteq> [] then UnionV (QuantifiedV (join ''#'' names) None # others)
               else QuantifiedV (join ''#'' names) None))"

fun nameString :: "Name \<Rightarrow> string" where
  "nameString (EffectName n) = n"
| "nameString (VariableName n) = n"

definition hashSubstitutions :: "EffectComponent list \<Rightarrow> Substitutions" where
  "hashSubstitutions cs =
     concat (map (\<lambda>c. map (\<lambda>n. SubVariable (nameString n) (hashVariables (variables c)))
                         (variablesNames (variables c))) cs)"

text \<open>An \<open>ArrowEffect\<close>: the parameters and the result of an effect known to be an arrow.\<close>

type_synonym ArrowEffect = "Effect list \<times> Effect"

definition hashedComponents :: "EffectComponent list \<Rightarrow> EffectComponent list" where
  "hashedComponents cs = map (\<lambda>c. \<lparr> kind = kind c, variables = hashVariables (variables c) \<rparr>) cs"

fun simplifyArrowEffect ::
  "externals \<Rightarrow> Effect list \<Rightarrow> Effect \<Rightarrow> ArrowEffect \<times> Substitutions" where
  "simplifyArrowEffect ext [ConcreteE cs] result =
     (if effectToString ext (ConcreteE cs) = effectToString ext result
      then (([ConcreteE (hashedComponents cs)], result), hashSubstitutions cs)
      else (([ConcreteE cs], result), []))"
| "simplifyArrowEffect ext params result = ((params, result), [])"

text \<open>
  \<open>applySubstitutionsAndUnify\<close> and \<open>unifyArrows\<close> call \<open>unify\<close> back; \<open>u\<close> is that
  call with the budget left.
\<close>

definition applySubstitutionsAndUnify ::
  "externals \<Rightarrow> (Effect \<Rightarrow> Effect \<Rightarrow> (ErrorTree, Substitutions) attempt) \<Rightarrow> Substitutions
     \<Rightarrow> Effect \<Rightarrow> Effect \<Rightarrow> (Error, Substitutions) attempt" where
  "applySubstitutionsAndUnify ext u subs e1 e2 =
     chain (chain (mapLeft Many (mergeInMany [Some (applySubstitution ext subs e1),
                                               Some (applySubstitution ext subs e2)]))
              (\<lambda>effectsWithSubstitutions.
                 case effectsWithSubstitutions of
                   [a, b] \<Rightarrow> mapLeft One (u a b)
                 | _ \<Rightarrow> None))
       (\<lambda>newSubstitutions. Some (compose ext newSubstitutions subs))"

text \<open>
  The parameters of the two arrows are unified pairwise, in order; both lists have the
  same length here (they had it, or \<open>tryToUnpack\<close> returned two lists of length one).
\<close>

definition unifyArrows ::
  "externals \<Rightarrow> (Effect \<Rightarrow> Effect \<Rightarrow> (ErrorTree, Substitutions) attempt) \<Rightarrow> string
     \<Rightarrow> ArrowEffect \<Rightarrow> ArrowEffect \<Rightarrow> (ErrorTree, Substitutions) attempt" where
  "unifyArrows ext u location e1 e2 =
     (case (if length (fst e1) = length (fst e2) then Inr (fst e1, fst e2)
            else tryToUnpack ext location (fst e1) (fst e2)) of
        Inl err \<Rightarrow> Some (Inl err)
      | Inr (p1, p2) \<Rightarrow>
          (case simplifyArrowEffect ext p1 (snd e1) of (arrow1, subs1) \<Rightarrow>
           case simplifyArrowEffect ext p2 (snd e2) of (arrow2, subs2) \<Rightarrow>
             mapLeft (buildErrorTree location)
               (chain (foldl (\<lambda>result (e, e'). chain result
                                 (\<lambda>subs. applySubstitutionsAndUnify ext u subs e e'))
                         (Some (compose ext subs1 subs2))
                         (zip (fst arrow1) (fst arrow2)))
                  (\<lambda>subs. applySubstitutionsAndUnify ext u subs (snd arrow1) (snd arrow2)))))"

subsection \<open>Unification of effects\<close>

text \<open>
  The branches of \<open>unify\<close> after the printed forms were found different, in the order the
  source tests them.
\<close>

fun unifyCases ::
  "externals \<Rightarrow> (Effect \<Rightarrow> Effect \<Rightarrow> (ErrorTree, Substitutions) attempt) \<Rightarrow> nat \<Rightarrow> string
     \<Rightarrow> Effect \<Rightarrow> Effect \<Rightarrow> (ErrorTree, Substitutions) attempt" where
  "unifyCases ext u fuel location (ArrowE p1 r1) (ArrowE p2 r2) =
     unifyArrows ext u location (p1, r1) (p2, r2)"
| "unifyCases ext u fuel location (ConcreteE cs1) (ConcreteE cs2) =
     mapLeft (buildErrorTree location) (unifyConcrete ext fuel location cs1 cs2)"
| "unifyCases ext u fuel location (QuantifiedE n) e2 =
     mapLeft (buildErrorLeaf location) (Some (bindEffect ext n e2))"
| "unifyCases ext u fuel location e1 (QuantifiedE n) =
     mapLeft (buildErrorLeaf location) (Some (bindEffect ext n e1))"
| "unifyCases ext u fuel location e1 e2 =
     Some (Inl (ErrorTree location (Some ''Can't unify different types of effects'') []))"

fun unify ::
  "externals \<Rightarrow> nat \<Rightarrow> Effect \<Rightarrow> Effect \<Rightarrow> (ErrorTree, Substitutions) attempt" where
  "unify ext 0 ea eb = None"
| "unify ext (Suc fuel) ea eb =
     (let location = ''Trying to unify '' @ effectToString ext ea @ '' and '' @ effectToString ext eb;
          e1 = simplify ext ea;
          e2 = simplify ext eb
      in if effectToString ext e1 = effectToString ext e2 then Some (Inr [])
         else unifyCases ext (unify ext fuel) fuel location e1 e2)"

section \<open>An instance of the collaborators\<close>

text \<open>
  The theorems about the unifier quantify over the collaborators. To run the unifier on
  concrete effects they are instantiated with the functions below, written from the
  specification of the printing, simplification and substitution modules.
\<close>

subsection \<open>Printing\<close>

fun stringLeq :: "string \<Rightarrow> string \<Rightarrow> bool" where
  "stringLeq [] ys = True"
| "stringLeq (x # xs) [] = False"
| "stringLeq (x # xs) (y # ys) =
     (if x = y then stringLeq xs ys else (of_char x :: nat) < of_char y)"

fun insertString :: "string \<Rightarrow> string list \<Rightarrow> string list" where
  "insertString x [] = [x]"
| "insertString x (y # ys) = (if stringLeq x y then x # y # ys else y # insertString x ys)"

definition sortStrings :: "string list \<Rightarrow> string list" where
  "sortStrings xs = foldr insertString xs []"

fun stateNames :: "Variables \<Rightarrow> string list" where
  "stateNames (ConcreteV vars) = map (\<lambda>v. [CHR 0x27] @ name v @ [CHR 0x27]) vars"
| "stateNames (QuantifiedV n r) = []"
| "stateNames (UnionV vs) = concat (map stateNames vs)"

text \<open>
  Modelled from the spec: the printing module is not among the sources. The printed
  form orders the component kinds Read, Update, Temporal, and the variable names with
  the state variables first, in lexicographic order, then the quantified names in
  lexicographic order.
\<close>

definition variablesToStringSpec :: "Variables \<Rightarrow> string" where
  "variablesToStringSpec v =
     join '', '' (sortStrings (stateNames v) @ sortStrings (map nameString (variablesNames v)))"

fun kindDisplay :: "ComponentKind \<Rightarrow> string" where
  "kindDisplay Read = ''Read''"
| "kindDisplay Update = ''Update''"
| "kindDisplay Temporal = ''Temporal''"

definition effectComponentToStringSpec :: "EffectComponent \<Rightarrow> string" where
  "effectComponentToStringSpec c = kindDisplay (kind c) @ ''['' @ variablesToStringSpec (variables c) @ '']''"

definition orderedByKind :: "EffectComponent list \<Rightarrow> EffectComponent list" where
  "orderedByKind cs =
     filter (\<lambda>c. kind c = Read) cs @ filter (\<lambda>c. kind c = Update) cs
     @ filter (\<lambda>c. kind c = Temporal) cs"

fun effectToStringSpec :: "Effect \<Rightarrow> string" where
  "effectToStringSpec (ConcreteE cs) =
     (if cs = [] then ''Pure''
      else join '' & '' (map effectComponentToStringSpec (orderedByKind cs)))"
| "effectToStringSpec (ArrowE ps r) =
     ''('' @ join '', '' (map effectToStringSpec ps) @ '') => '' @ effectToStringSpec r"
| "effectToStringSpec (QuantifiedE n) = n"

subsection \<open>Simplification\<close>

text \<open>
  Modelled from the spec: the simplification module is not among the sources.
  \<open>flatten_unions\<close> recursively collapses nested unions, removes duplicates by
  structural equality, drops empty concrete members and unwraps singletons; an empty
  union becomes the empty concrete variables.
\<close>

fun flattenUnionsSpec :: "Variables \<Rightarrow> Variables" where
  "flattenUnionsSpec (UnionV vs) =
     (case remdups (filter (\<lambda>v. v \<noteq> ConcreteV [])
             (concat (map (\<lambda>v. case flattenUnionsSpec v of UnionV ws \<Rightarrow> ws | w \<Rightarrow> [w]) vs))) of
        [] \<Rightarrow> ConcreteV []
      | [v] \<Rightarrow> v
      | members \<Rightarrow> UnionV members)"
| "flattenUnionsSpec v = v"

text \<open>
  Modelled from the spec: simplification merges the components of one kind of a
  concrete effect by unioning their variables, flattens the unions and leaves out a
  component with no variables; in an arrow it simplifies the parameters and the result
  independently.
\<close>

definition mergeComponents :: "EffectComponent list \<Rightarrow> EffectComponent list" where
  "mergeComponents cs =
     filter (\<lambda>c. variables c \<noteq> ConcreteV [])
       (map (\<lambda>k. \<lparr> kind = k,
                    variables = flattenUnionsSpec
                      (UnionV (map variables (filter (\<lambda>c. kind c = k) cs))) \<rparr>)
          (rev (remdups (rev (map kind cs)))))"

fun simplifySpec :: "Effect \<Rightarrow> Effect" where
  "simplifySpec (ConcreteE cs) = ConcreteE (mergeComponents cs)"
| "simplifySpec (ArrowE ps r) = ArrowE (map simplifySpec ps) (simplifySpec r)"
| "simplifySpec (QuantifiedE n) = QuantifiedE n"

subsection \<open>Substitutions\<close>

text \<open>
  Modelled from the spec: the substitution module is not among the sources. Applying
  substitutions iterates the bindings in order, each on the result of the one before; it
  recurses into arrows and concrete effects, and into unions for variables.
\<close>

fun bindInVariables :: "Substitution \<Rightarrow> Variables \<Rightarrow> Variables" where
  "bindInVariables (SubVariable n value) (QuantifiedV m r) =
     (if n = m then value else QuantifiedV m r)"
| "bindInVariables (SubVariable n value) (UnionV vs) =
     UnionV (map (bindInVariables (SubVariable n value)) vs)"
| "bindInVariables s v = v"

fun bindInEffect :: "Substitution \<Rightarrow> Effect \<Rightarrow> Effect" where
  "bindInEffect s (ConcreteE cs) =
     ConcreteE (map (\<lambda>c. c\<lparr>variables := bindInVariables s (variables c)\<rparr>) cs)"
| "bindInEffect s (ArrowE ps r) = ArrowE (map (bindInEffect s) ps) (bindInEffect s r)"
| "bindInEffect s (QuantifiedE m) =
     (case s of SubEffect n value \<Rightarrow> (if n = m then value else QuantifiedE m)
              | SubVariable n value \<Rightarrow> QuantifiedE m)"

definition applySubstitutionToVariablesSpec :: "Substitutions \<Rightarrow> Variables \<Rightarrow> Variables" where
  "applySubstitutionToVariablesSpec subs v = foldl (\<lambda>v s. bindInVariables s v) v subs"

definition applySubstitutionSpec :: "Substitutions \<Rightarrow> Effect \<Rightarrow> ErrorTree + Effect" where
  "applySubstitutionSpec subs e = Inr (foldl (\<lambda>e s. bindInEffect s e) e subs)"

text \<open>
  Modelled from the spec: composition applies the first substitutions to every value of
  the second, concatenates the first with the result and removes duplicates by kind and
  name, the first occurrence winning; it fails when a name would be bound again to a
  different value.
\<close>

fun sameKey :: "Substitution \<Rightarrow> Substitution \<Rightarrow> bool" where
  "sameKey (SubVariable n v) (SubVariable m w) = (n = m)"
| "sameKey (SubEffect n e) (SubEffect m f) = (n = m)"
| "sameKey s t = False"

fun applyToValue :: "Substitutions \<Rightarrow> Substitution \<Rightarrow> Substitution" where
  "applyToValue s1 (SubVariable n v) = SubVariable n (applySubstitutionToVariablesSpec s1 v)"
| "applyToValue s1 (SubEffect n e) = SubEffect n (foldl (\<lambda>e s. bindInEffect s e) e s1)"

fun firstWins :: "Substitutions \<Rightarrow> Substitutions" where
  "firstWins [] = []"
| "firstWins (s # ss) = s # firstWins (filter (\<lambda>t. \<not> sameKey s t) ss)"

fun inconsistent :: "Substitutions \<Rightarrow> bool" where
  "inconsistent [] = False"
| "inconsistent (s # ss) = (list_ex (\<lambda>t. sameKey s t \<and> t \<noteq> s) ss \<or> inconsistent ss)"

definition composeSpec :: "Substitutions \<Rightarrow> Substitutions \<Rightarrow> Error + Substitutions" where
  "composeSpec s1 s2 =
     (let bindings = s1 @ map (applyToValue s1) s2
      in if inconsistent bindings
         then Inl (One (ErrorTree ''Composing substitutions''
                (Some ''a name is bound to two different values'') []))
         else Inr (firstWins bindings))"

definition specExt :: externals where
  "specExt = \<lparr> effectToString = effectToStringSpec,
               variablesToString = variablesToStringSpec,
               effectComponentToString = effectComponentToStringSpec,
               simplify = simplifySpec,
               flattenUnions = flattenUnionsSpec,
               applySubstitution = applySubstitutionSpec,
               applySubstitutionToVariables = applySubstitutionToVariablesSpec,
               compose = composeSpec \<rparr>"

section \<open>The effect inferrer\<close>

subsection \<open>The intermediate representation\<close>

text \<open>
  Expressions and operator definitions with their ids. The parameters of a lambda are
  names. A module is a name with its operator definitions; of the other definitions
  (constants, variables, types) the inferrer has no handler.
\<close>

datatype QuintEx =
    QuintName int string
  | QuintBool int bool
  | QuintInt int int
  | QuintStr int string
  | QuintApp int string "QuintEx list"
  | QuintLambda int "string list" QuintEx
  | QuintLet int QuintOpDef QuintEx
and QuintOpDef = QuintOpDef int string QuintEx

record QuintModule =
  moduleName :: string
  defs :: "QuintOpDef list"

fun exprId :: "QuintEx \<Rightarrow> int" where
  "exprId (QuintName i n) = i"
| "exprId (QuintBool i b) = i"
| "exprId (QuintInt i v) = i"
| "exprId (QuintStr i s) = i"
| "exprId (QuintApp i opcode args) = i"
| "exprId (QuintLambda i ps e) = i"
| "exprId (QuintLet i d e) = i"

text \<open>A definition found by the lookup: its kind and its optional reference.\<close>

datatype DefKind = ParamDef | ConstDef | VarDef | ValDef | DefDef | OtherDef

datatype Definition = Definition DefKind "int option"

record EffectScheme =
  effect :: Effect
  effectVariables :: "string list"
  entityVariables :: "string list"

text \<open>
  What the inferrer is given: the collaborators of the unifier, the lookup in the current
  table and scope tree, the built-in signatures, and the printing of expressions.
\<close>

record inferrerEnv =
  collaborators :: externals
  lookupValue :: "string \<Rightarrow> int \<Rightarrow> Definition option"
  builtinSignatures :: "string \<Rightarrow> (nat \<Rightarrow> EffectScheme) option"
  expressionToString :: "QuintEx \<Rightarrow> string"

text \<open>
  The mutable fields of the inferrer. The two result maps are keyed by expression id and
  keep their entries in the order of insertion, as a \<open>Map\<close> does; the fresh-variable
  generator is its counter.
\<close>

type_synonym 'v idMap = "(int \<times> 'v) list"

fun mapSet :: "int \<Rightarrow> 'v \<Rightarrow> 'v idMap \<Rightarrow> 'v idMap" where
  "mapSet k v [] = [(k, v)]"
| "mapSet k v ((k', v') # m) = (if k = k' then (k, v) # m else (k', v') # mapSet k v m)"

definition mapGet :: "'v idMap \<Rightarrow> int \<Rightarrow> 'v option" where
  "mapGet m k = map_of m k"

record state =
  effects :: "EffectScheme idMap"
  errors :: "ErrorTree idMap"
  substitutions :: Substitutions
  freshVarCounter :: nat
  location :: string

definition initialState :: state where
  "initialState = \<lparr> effects = [], errors = [], substitutions = [],
                     freshVarCounter = 0, location = [] \<rparr>"

text \<open>\<open>this.errors.size > 0\<close>\<close>

definition hasErrors :: "state \<Rightarrow> bool" where
  "hasErrors st = (errors st \<noteq> [])"

text \<open>
  Modelled from the spec: the fresh-variable generator is not among the sources. Fresh
  names are a prefix followed by a monotonically increasing counter.
\<close>

definition freshVar :: "string \<Rightarrow> state \<Rightarrow> string \<times> state" where
  "freshVar prefix st =
     (prefix @ showNat (freshVarCounter st), st\<lparr>freshVarCounter := freshVarCounter st + 1\<rparr>)"

text \<open>
  Modelled from the spec: \<open>toScheme\<close> is not among the sources. The scheme of an effect
  that quantifies nothing has empty quantifier sets.
\<close>

definition toScheme :: "Effect \<Rightarrow> EffectScheme" where
  "toScheme e = \<lparr> effect = e, effectVariables = [], entityVariables = [] \<rparr>"

text \<open>
  Modelled from the spec: the revision of \<open>effectNames\<close> that the inferrer calls returns
  the effect-variable names and the entity-variable names of an effect as two sets, and is
  not among the sources. They are the free names of the effect, by kind.
\<close>

definition effectVariablesOf :: "Effect \<Rightarrow> string list" where
  "effectVariablesOf e = concat (map (\<lambda>n. case n of EffectName x \<Rightarrow> [x] | VariableName x \<Rightarrow> []) (effectNames e))"

definition entityVariablesOf :: "Effect \<Rightarrow> string list" where
  "entityVariablesOf e = concat (map (\<lambda>n. case n of EffectName x \<Rightarrow> [] | VariableName x \<Rightarrow> [x]) (effectNames e))"

text \<open>A \<open>bigint\<close> in a template literal.\<close>

definition showInt :: "int \<Rightarrow> string" where
  "showInt i = (if i < 0 then ''-'' @ showNat (nat (- i)) else showNat (nat i))"

text \<open>The elements of a \<open>Set\<close> built from an array: each once, in the order of first insertion.\<close>

definition firstOcc :: "'a list \<Rightarrow> 'a list" where
  "firstOcc xs = rev (remdups (rev xs))"

subsection \<open>Results\<close>

definition addToResults :: "int \<Rightarrow> Error + EffectScheme \<Rightarrow> state \<Rightarrow> state" where
  "addToResults exprId' result st =
     (case result of
        Inl err \<Rightarrow> st\<lparr>errors := mapSet exprId' (buildErrorTree (location st) err) (errors st)\<rparr>
      | Inr r \<Rightarrow> st\<lparr>effects := mapSet exprId' r (effects st)\<rparr>)"

definition fetchResult :: "state \<Rightarrow> int \<Rightarrow> (ErrorTree + EffectScheme) outcome" where
  "fetchResult st i =
     (case mapGet (errors st) i of
        Some failedResult \<Rightarrow> Returns (Inl failedResult)
      | None \<Rightarrow> (case mapGet (effects st) i of
                   Some successfulResult \<Rightarrow> Returns (Inr successfulResult)
                 | None \<Rightarrow> Throws ''Couldn't find any result for id''))"

subsection \<open>Instances of a scheme\<close>

fun freshVars :: "string \<Rightarrow> string list \<Rightarrow> state \<Rightarrow> string list \<times> state" where
  "freshVars prefix [] st = ([], st)"
| "freshVars prefix (n # ns) st =
     (case freshVar prefix st of (v, st1) \<Rightarrow>
      case freshVars prefix ns st1 of (vs, st2) \<Rightarrow> (v # vs, st2))"

definition instantiate :: "externals \<Rightarrow> Substitutions \<Rightarrow> Substitutions \<Rightarrow> Effect \<Rightarrow> Effect outcome" where
  "instantiate ext effectSubs entitySubs e =
     (case compose ext effectSubs entitySubs of
        Inl err \<Rightarrow> Throws ''Error applying fresh names substitution''
      | Inr s \<Rightarrow> (case applySubstitution ext s e of
                    Inl err \<Rightarrow> Throws ''Error applying fresh names substitution''
                  | Inr value \<Rightarrow> Returns value))"

definition newInstance :: "inferrerEnv \<Rightarrow> EffectScheme \<Rightarrow> state \<Rightarrow> (Effect \<times> state) outcome" where
  "newInstance env scheme st =
     (case freshVars ''e'' (effectVariables scheme) st of (es, st1) \<Rightarrow>
      case freshVars ''v'' (entityVariables scheme) st1 of (vs, st2) \<Rightarrow>
        obind (instantiate (collaborators env)
                 (map (\<lambda>(n, v). SubEffect n (QuantifiedE v)) (zip (effectVariables scheme) es))
                 (map (\<lambda>(n, v). SubVariable n (QuantifiedV v None)) (zip (entityVariables scheme) vs))
                 (effect scheme))
          (\<lambda>value. Returns (value, st2)))"

text \<open>
  \<open>exitLambda\<close> passes \<open>this.newInstance\<close> as a callback, so the method runs without its
  receiver: minting a fresh name reads a field of \<open>undefined\<close> and throws, and only a
  scheme that quantifies nothing is instantiated.
\<close>

definition newInstanceUnbound :: "inferrerEnv \<Rightarrow> EffectScheme \<Rightarrow> Effect outcome" where
  "newInstanceUnbound env scheme =
     (if effectVariables scheme \<noteq> [] \<or> entityVariables scheme \<noteq> []
      then Throws ''TypeError''
      else instantiate (collaborators env) [] [] (effect scheme))"

text \<open>\<open>!id\<close> of an optional \<open>bigint\<close>: it is missing, or zero.\<close>

definition falsy :: "int option \<Rightarrow> bool" where
  "falsy r = (case r of None \<Rightarrow> True | Some i \<Rightarrow> i = 0)"

definition fetchSignature ::
  "inferrerEnv \<Rightarrow> string \<Rightarrow> int \<Rightarrow> nat \<Rightarrow> state \<Rightarrow> ((ErrorTree + Effect) \<times> state) outcome" where
  "fetchSignature env opcode scope arity st =
     (if opcode = ''_''
      then (case freshVar ''_e'' st of (v, st1) \<Rightarrow> Returns (Inr (QuantifiedE v), st1))
      else case builtinSignatures env opcode of
        Some signatureFunction \<Rightarrow>
          obind (newInstance env (signatureFunction arity) st)
            (\<lambda>(e, st1). Returns (Inr e, st1))
      | None \<Rightarrow>
          (case lookupValue env opcode scope of
             None \<Rightarrow> Returns (Inl (buildErrorLeaf (location st)
                        (''Signature not found for name: '' @ opcode)), st)
           | Some (Definition k r) \<Rightarrow>
               if falsy r
               then Returns (Inl (buildErrorLeaf (location st)
                      (''Signature not found for name: '' @ opcode)), st)
               else if k = ParamDef
               then Returns (Inr (QuantifiedE (''e_'' @ opcode @ ''_'' @ showInt (the r))), st)
               else obind (fetchResult st (the r))
                      (\<lambda>res. case res of
                         Inl err \<Rightarrow> Returns (Inl err, st)
                       | Inr e \<Rightarrow> obind (newInstance env e st)
                                   (\<lambda>(e', st1). Returns (Inr e', st1)))))"

subsection \<open>The handlers of the visitor\<close>

text \<open>\<open>mergeInMany\<close> on results that are all there.\<close>

definition mergeEithers :: "('e + 'a) list \<Rightarrow> 'e list + 'a list" where
  "mergeEithers rs = (case lefts rs of [] \<Rightarrow> Inr (rights rs) | e # es \<Rightarrow> Inl (e # es))"

definition enterExpr :: "inferrerEnv \<Rightarrow> QuintEx \<Rightarrow> state \<Rightarrow> state" where
  "enterExpr env e st = st\<lparr>location := ''Inferring effect for '' @ expressionToString env e\<rparr>"

definition exitName :: "inferrerEnv \<Rightarrow> int \<Rightarrow> string \<Rightarrow> state \<Rightarrow> state outcome" where
  "exitName env i n st =
     (if hasErrors st then Returns st
      else case lookupValue env n i of
        None \<Rightarrow>
          Returns (addToResults i (Inl (One (buildErrorLeaf (location st)
                     (''Couldn't find '' @ n @ '' in the lookup table'')))) st)
      | Some (Definition k r) \<Rightarrow>
          (case k of
             ParamDef \<Rightarrow>
               Returns (addToResults i
                 (if \<not> falsy r
                  then Inr (toScheme (QuantifiedE (''e_'' @ n @ ''_'' @ showInt (the r))))
                  else Inl (One (buildErrorLeaf (location st)
                         (''Couldn't find an effect for lambda parameter named '' @ n
                          @ '' in context.''))))
                 st)
           | ConstDef \<Rightarrow> Returns (addToResults i (Inr (toScheme (ConcreteE []))) st)
           | VarDef \<Rightarrow>
               Returns (addToResults i
                 (Inr (toScheme (ConcreteE
                    [\<lparr> kind = Read, variables = ConcreteV [\<lparr> name = n, reference = i \<rparr>] \<rparr>])))
                 st)
           | OtherDef \<Rightarrow> Returns st
           | _ \<Rightarrow>
               obind (if \<not> falsy r
                      then obind (fetchResult st (the r))
                             (\<lambda>res. Returns (addToResults i (map_sum One id res) st))
                      else Returns st)
                 (\<lambda>st1. obind (fetchSignature env n i 2 st1)
                    (\<lambda>(sig, st2). case sig of
                        Inl err \<Rightarrow> Returns st2
                      | Inr e \<Rightarrow> Returns (addToResults i (Inr (toScheme e)) st2)))))"

definition exitLiteral :: "int \<Rightarrow> state \<Rightarrow> state outcome" where
  "exitLiteral i st = Returns (addToResults i (Inr (toScheme (ConcreteE []))) st)"

definition exitOpDef :: "int \<Rightarrow> int \<Rightarrow> state \<Rightarrow> state outcome" where
  "exitOpDef defId bodyId st =
     (if hasErrors st then Returns st
      else obind (fetchResult st bodyId)
             (\<lambda>result. Returns (addToResults defId (map_sum One id result) st)))"

definition exitLet :: "int \<Rightarrow> int \<Rightarrow> state \<Rightarrow> state outcome" where
  "exitLet i bodyId st =
     (if hasErrors st then Returns st
      else obind (fetchResult st bodyId)
             (\<lambda>e. Returns (addToResults i (map_sum One id e) st)))"

text \<open>The fresh instances of the arguments' results, in order.\<close>

fun instances ::
  "inferrerEnv \<Rightarrow> int list \<Rightarrow> state \<Rightarrow> ((ErrorTree + Effect) list \<times> state) outcome" where
  "instances env [] st = Returns ([], st)"
| "instances env (a # as) st =
     obind (fetchResult st a)
       (\<lambda>res. case res of
          Inl err \<Rightarrow> obind (instances env as st) (\<lambda>(rs, st2). Returns (Inl err # rs, st2))
        | Inr e \<Rightarrow> obind (newInstance env e st)
                    (\<lambda>(e', st1). obind (instances env as st1)
                       (\<lambda>(rs, st2). Returns (Inr e' # rs, st2))))"

text \<open>The arguments' results are updated under the new substitutions; an id of zero throws.\<close>

fun updateArguments ::
  "externals \<Rightarrow> Substitutions \<Rightarrow> (Effect \<times> int) list \<Rightarrow> state \<Rightarrow> state outcome" where
  "updateArguments ext s [] st = Returns st"
| "updateArguments ext s ((e, i) # rest) st =
     (if i = 0 then Throws ''Invalid arrays''
      else updateArguments ext s rest
             (addToResults i (map_sum One toScheme (applySubstitution ext s e)) st))"

definition exitApp ::
  "inferrerEnv \<Rightarrow> nat \<Rightarrow> QuintEx \<Rightarrow> int \<Rightarrow> string \<Rightarrow> QuintEx list \<Rightarrow> state
     \<Rightarrow> state outcome option" where
  "exitApp env fuel expr i opcode args st =
     (if hasErrors st then Some (Returns st)
      else
        let st0 = st\<lparr>location := ''Trying to infer effect for operator application in ''
                                   @ expressionToString env expr\<rparr>
        in case instances env (map exprId args) st0 of
             Throws msg \<Rightarrow> Some (Throws msg)
           | Returns (rs, st1) \<Rightarrow>
               (case freshVar ''e'' st1 of (resultName, st2) \<Rightarrow>
               (case fetchSignature env opcode i (length args) st2 of
                  Throws msg \<Rightarrow> Some (Throws msg)
                | Returns (Inl err, st3) \<Rightarrow>
                    Some (Returns (addToResults i
                            (Inl (One (buildErrorTree (location st3) (One err)))) st3))
                | Returns (Inr signature, st3) \<Rightarrow>
                    (case mergeEithers rs of
                       Inl errs \<Rightarrow> Some (Returns (addToResults i (Inl (Many errs)) st3))
                     | Inr params \<Rightarrow>
                         (case unify (collaborators env) fuel signature
                                 (ArrowE params (QuantifiedE resultName)) of
                            None \<Rightarrow> None
                          | Some (Inl err) \<Rightarrow> Some (Returns (addToResults i (Inl (One err)) st3))
                          | Some (Inr s0) \<Rightarrow>
                              (case compose (collaborators env) (substitutions st3) s0 of
                                 Inl err \<Rightarrow> Some (Returns (addToResults i (Inl err) st3))
                               | Inr s \<Rightarrow>
                                   Some (obind (updateArguments (collaborators env) s
                                                  (zip params (map exprId args))
                                                  (st3\<lparr>substitutions := s\<rparr>))
                                     (\<lambda>st4. case applySubstitution (collaborators env) s
                                                    (QuantifiedE resultName) of
                                         Inl err \<Rightarrow> Returns (addToResults i (Inl (One err)) st4)
                                       | Inr e \<Rightarrow> Returns (addToResults i (Inr (toScheme e)) st4)))))))))"

text \<open>The effects of the parameters: their signatures under the running substitutions.\<close>

fun paramEffects ::
  "inferrerEnv \<Rightarrow> string list \<Rightarrow> int \<Rightarrow> state \<Rightarrow> ((ErrorTree + Effect) list \<times> state) outcome" where
  "paramEffects env [] bodyId st = Returns ([], st)"
| "paramEffects env (p # ps) bodyId st =
     obind (fetchSignature env p bodyId 2 st)
       (\<lambda>(sig, st1).
          obind (paramEffects env ps bodyId st1)
            (\<lambda>(rs, st2). Returns
               ((case sig of
                   Inl err \<Rightarrow> Inl err
                 | Inr e \<Rightarrow> applySubstitution (collaborators env) (substitutions st1) e) # rs, st2)))"

text \<open>The names of the parameters of the arrow, by kind, each once.\<close>

definition nonFreeNames :: "Effect list \<Rightarrow> string list \<times> string list" where
  "nonFreeNames ps =
     foldl (\<lambda>(effectVars, entityVars) p.
              (firstOcc (effectVars @ effectVariablesOf p),
               firstOcc (entityVars @ entityVariablesOf p)))
       ([], []) ps"

definition exitLambda ::
  "inferrerEnv \<Rightarrow> int \<Rightarrow> string list \<Rightarrow> int \<Rightarrow> state \<Rightarrow> state outcome" where
  "exitLambda env i params bodyId st =
     (if hasErrors st then Returns st
      else
        obind (fetchResult st bodyId) (\<lambda>exprResult.
        obind (paramEffects env params bodyId st) (\<lambda>(rs, st1).
          case (case exprResult of
                  Inl err \<Rightarrow> Inl (One err)
                | Inr resultEffect \<Rightarrow>
                    (case mergeEithers rs of
                       Inl errs \<Rightarrow> Inl (Many errs)
                     | Inr ps \<Rightarrow> Inr (resultEffect\<lparr>effect := ArrowE ps (effect resultEffect)\<rparr>))) of
            Inl err \<Rightarrow> Returns (addToResults i (Inl err) st1)
          | Inr scheme \<Rightarrow>
              obind (newInstanceUnbound env scheme) (\<lambda>instance.
                case applySubstitution (collaborators env) (substitutions st1) instance of
                  Inl err \<Rightarrow> Returns (addToResults i (Inl (One err)) st1)
                | Inr (ArrowE ps r) \<Rightarrow>
                    Returns (addToResults i
                      (Inr \<lparr> effect = ArrowE ps r,
                             effectVariables = fst (nonFreeNames ps),
                             entityVariables = snd (nonFreeNames ps) \<rparr>) st1)
                | Inr e \<Rightarrow> Throws ''Arrow effect after substitution should be an arrow''))))"

subsection \<open>The walk\<close>

text \<open>
  Modelled from the spec: the driver of the visitor is not among the sources. It visits
  the expressions in strict post-order, siblings in the order of the IR: on entering an
  expression it calls \<open>enterExpr\<close>, and after the children of a node the exit handler of
  its kind. A handler that throws ends the run.
\<close>

definition andThen ::
  "state outcome option \<Rightarrow> (state \<Rightarrow> state outcome option) \<Rightarrow> state outcome option" where
  "andThen r f = (case r of None \<Rightarrow> None | Some (Throws msg) \<Rightarrow> Some (Throws msg)
                          | Some (Returns st) \<Rightarrow> f st)"

fun walkExpression :: "inferrerEnv \<Rightarrow> nat \<Rightarrow> QuintEx \<Rightarrow> state \<Rightarrow> state outcome option"
  and walkExpressions :: "inferrerEnv \<Rightarrow> nat \<Rightarrow> QuintEx list \<Rightarrow> state \<Rightarrow> state outcome option"
  and walkDefinition :: "inferrerEnv \<Rightarrow> nat \<Rightarrow> QuintOpDef \<Rightarrow> state \<Rightarrow> state outcome option" where
  "walkExpression env fuel (QuintName i n) st =
     Some (exitName env i n (enterExpr env (QuintName i n) st))"
| "walkExpression env fuel (QuintBool i b) st =
     Some (exitLiteral i (enterExpr env (QuintBool i b) st))"
| "walkExpression env fuel (QuintInt i v) st =
     Some (exitLiteral i (enterExpr env (QuintInt i v) st))"
| "walkExpression env fuel (QuintStr i s) st =
     Some (exitLiteral i (enterExpr env (QuintStr i s) st))"
| "walkExpression env fuel (QuintApp i opcode args) st =
     andThen (walkExpressions env fuel args (enterExpr env (QuintApp i opcode args) st))
       (exitApp env fuel (QuintApp i opcode args) i opcode args)"
| "walkExpression env fuel (QuintLambda i ps body) st =
     andThen (walkExpression env fuel body (enterExpr env (QuintLambda i ps body) st))
       (\<lambda>st1. Some (exitLambda env i ps (exprId body) st1))"
| "walkExpression env fuel (QuintLet i opdef body) st =
     andThen (andThen (walkDefinition env fuel opdef (enterExpr env (QuintLet i opdef body) st))
                (walkExpression env fuel body))
       (\<lambda>st1. Some (exitLet i (exprId body) st1))"
| "walkExpressions env fuel [] st = Some (Returns st)"
| "walkExpressions env fuel (e # es) st =
     andThen (walkExpression env fuel e st) (walkExpressions env fuel es)"
| "walkDefinition env fuel (QuintOpDef i n body) st =
     andThen (walkExpression env fuel body st) (\<lambda>st1. Some (exitOpDef i (exprId body) st1))"

fun walkDefinitions ::
  "inferrerEnv \<Rightarrow> nat \<Rightarrow> QuintOpDef list \<Rightarrow> state \<Rightarrow> state outcome option" where
  "walkDefinitions env fuel [] st = Some (Returns st)"
| "walkDefinitions env fuel (d # ds) st =
     andThen (walkDefinition env fuel d st) (walkDefinitions env fuel ds)"

definition walkModule :: "inferrerEnv \<Rightarrow> nat \<Rightarrow> QuintModule \<Rightarrow> state \<Rightarrow> state outcome option" where
  "walkModule env fuel m st = walkDefinitions env fuel (defs m) st"

text \<open>\<open>inferEffects\<close> on a new inferrer: the walk of the module from the initial fields.\<close>

definition inferEffects :: "inferrerEnv \<Rightarrow> nat \<Rightarrow> QuintModule \<Rightarrow> state outcome option" where
  "inferEffects env fuel m = walkModule env fuel m initialState"

section \<open>Descriptions used in the statements\<close>

text \<open>
  The components of the concrete effects of a list, grouped by kind: the kinds in the
  order of their first occurrence, each with the variables of its components, in order.
  This is the description of tuple unpacking that the implementation with its
  insertion-ordered map is compared with.
\<close>

fun componentsOf :: "Effect \<Rightarrow> EffectComponent list" where
  "componentsOf (ConcreteE cs) = cs"
| "componentsOf e = []"

fun isConcreteE :: "Effect \<Rightarrow> bool" where
  "isConcreteE (ConcreteE cs) = True"
| "isConcreteE e = False"

definition groupedByKind :: "EffectComponent list \<Rightarrow> (ComponentKind \<times> Variables list) list" where
  "groupedByKind cs =
     map (\<lambda>k. (k, map variables (filter (\<lambda>c. kind c = k) cs))) (firstOcc (map kind cs))"

definition combinedByKind :: "Effect list \<Rightarrow> Effect" where
  "combinedByKind es =
     ConcreteE (map (\<lambda>(k, vs). \<lparr> kind = k, variables = UnionV vs \<rparr>)
                  (groupedByKind (concat (map componentsOf es))))"





text \<open>
  The pairs of kinds that the table of kinds lets through: Read with Update and Read with
  Temporal, in either order.
\<close>

definition readPaired :: "ComponentKind \<Rightarrow> ComponentKind \<Rightarrow> bool" where
  "readPaired k1 k2 =
     ((k1 = Read \<and> (k2 = Update \<or> k2 = Temporal)) \<or> (k2 = Read \<and> (k1 = Update \<or> k1 = Temporal)))"

text \<open>
  The expressions that the walk of an expression enters, in the order in which it enters
  them: the expression, then those of its children, in order. The literals among them are
  visited in this order.
\<close>

fun entered :: "QuintEx \<Rightarrow> QuintEx list"
  and enteredList :: "QuintEx list \<Rightarrow> QuintEx list"
  and enteredDef :: "QuintOpDef \<Rightarrow> QuintEx list" where
  "entered (QuintName i n) = [QuintName i n]"
| "entered (QuintBool i b) = [QuintBool i b]"
| "entered (QuintInt i v) = [QuintInt i v]"
| "entered (QuintStr i s) = [QuintStr i s]"
| "entered (QuintApp i opcode args) = QuintApp i opcode args # enteredList args"
| "entered (QuintLambda i ps body) = QuintLambda i ps body # entered body"
| "entered (QuintLet i opdef body) = QuintLet i opdef body # enteredDef opdef @ entered body"
| "enteredList [] = []"
| "enteredList (e # es) = entered e @ enteredList es"
| "enteredDef (QuintOpDef i n body) = entered body"

fun isLiteral :: "QuintEx \<Rightarrow> bool" where
  "isLiteral (QuintBool i b) = True"
| "isLiteral (QuintInt i v) = True"
| "isLiteral (QuintStr i s) = True"
| "isLiteral e = False"

text \<open>
  The state left by a walk on which only the literals record: to the result map of \<open>st\<close>
  the pure scheme is set at the id of each literal entered, in order, and the location is
  that of the last expression entered. The error map, the substitutions and the counter
  of fresh names are those of \<open>st\<close>.
\<close>

definition pureScheme :: EffectScheme where
  "pureScheme = toScheme (ConcreteE [])"

definition skipped :: "inferrerEnv \<Rightarrow> QuintEx list \<Rightarrow> state \<Rightarrow> state" where
  "skipped env xs st =
     st\<lparr> effects := foldl (\<lambda>m e. mapSet (exprId e) pureScheme m) (effects st) (filter isLiteral xs),
         location := (if xs = [] then location st
                      else ''Inferring effect for '' @ expressionToString env (last xs)) \<rparr>"

section \<open>Properties of the built-in operators\<close>

lemma roundMagnitude_small: "m < 2 ^ 53 \<Longrightarrow> roundMagnitude m = m"
  by (simp add: roundMagnitude_def)

lemma bitLength_lower: "0 < m \<Longrightarrow> 2 ^ (bitLength m - 1) \<le> m"
proof (induction m rule: bitLength.induct)
  case (1 m)
  show ?case
  proof (cases "m div 2 \<le> 0")
    case True
    with "1.prems" have "m = 1" by linarith
    then show ?thesis by (simp add: bitLength.simps [of 1] bitLength.simps [of 0])
  next
    case False
    then have pos: "0 < m div 2" by simp
    with "1.IH" "1.prems" have ih: "2 ^ (bitLength (m div 2) - 1) \<le> m div 2" by simp
    from pos have "0 < bitLength (m div 2)" by (simp add: bitLength.simps [of "m div 2"])
    then have "(2::int) ^ bitLength (m div 2) = 2 * 2 ^ (bitLength (m div 2) - 1)"
      by (cases "bitLength (m div 2)") simp_all
    also have "\<dots> \<le> 2 * (m div 2)" using ih by simp
    also have "\<dots> \<le> m" by linarith
    finally show ?thesis using "1.prems" by (simp add: bitLength.simps [of m])
  qed
qed

lemma bitLength_upper: "0 \<le> m \<Longrightarrow> m < 2 ^ bitLength m"
proof (induction m rule: bitLength.induct)
  case (1 m)
  show ?case
  proof (cases "m \<le> 0")
    case True
    with "1.prems" show ?thesis by (simp add: bitLength.simps [of m])
  next
    case False
    with "1.IH" have "m div 2 < 2 ^ bitLength (m div 2)" by simp
    then have "m < 2 * 2 ^ bitLength (m div 2)" by linarith
    with False show ?thesis by (simp add: bitLength.simps [of m])
  qed
qed

lemma roundMagnitude_large:
  assumes "2 ^ 53 \<le> m"
  shows "2 ^ 53 \<le> roundMagnitude m"
proof -
  define shift where "shift = bitLength m - 53"
  define q where "q = m div 2 ^ shift"
  have mpos: "0 < m" using assms by (simp add: order_less_le_trans [of 0 "2 ^ 53" m])
  have "m < 2 ^ bitLength m" using mpos by (simp add: bitLength_upper)
  with assms have "(2::int) ^ 53 < 2 ^ bitLength m" by linarith
  have "53 < bitLength m"
  proof (rule ccontr)
    assume "\<not> 53 < bitLength m"
    then have "bitLength m \<le> 53" by simp
    then have "(2::int) ^ bitLength m \<le> 2 ^ 53" by (intro power_increasing) simp_all
    with \<open>(2::int) ^ 53 < 2 ^ bitLength m\<close> show False by linarith
  qed
  then have fl: "bitLength m = shift + 53" and sh: "1 \<le> shift"
    by (simp_all add: shift_def)
  have "2 ^ (bitLength m - 1) \<le> m"
    using bitLength_lower [of m] mpos by simp
  then have "2 ^ 52 * 2 ^ shift \<le> m"
    by (simp add: fl power_add mult.commute)
  then have "(2 ^ 52 * 2 ^ shift) div 2 ^ shift \<le> m div (2 ^ shift :: int)"
    by (rule zdiv_mono1) simp
  then have "2 ^ 52 \<le> q"
    unfolding q_def by simp
  then have "2 ^ 52 * 2 ^ shift \<le> q * 2 ^ shift" by simp
  moreover have "(2::int) ^ 53 \<le> 2 ^ 52 * 2 ^ shift"
  proof -
    have "(2::int) ^ 1 \<le> 2 ^ shift" using sh by (intro power_increasing) simp_all
    then show ?thesis by simp
  qed
  ultimately have base: "2 ^ 53 \<le> q * 2 ^ shift" by linarith
  have "q * 2 ^ shift \<le> (q + 1) * 2 ^ shift" by (simp add: distrib_right)
  with base have "2 ^ 53 \<le> (q + 1) * 2 ^ shift" by linarith
  with base show ?thesis
    using assms by (simp add: roundMagnitude_def Let_def shift_def [symmetric] q_def [symmetric])
qed

lemma Number_exact: "\<bar>b\<bar> < 2 ^ 53 \<Longrightarrow> Number b = Finite b"
proof -
  assume a: "\<bar>b\<bar> < 2 ^ 53"
  then have r: "roundMagnitude \<bar>b\<bar> = \<bar>b\<bar>" by (rule roundMagnitude_small)
  have "\<bar>b\<bar> < (2::int) ^ 1024"
    using a by (rule less_le_trans) simp
  then show ?thesis by (simp add: Number_def r Let_def)
qed

lemma Number_neg: "b < 0 \<Longrightarrow> Number b = NegInfinity \<or> (\<exists>a. Number b = Finite a \<and> a < 0)"
proof -
  assume b: "b < 0"
  show ?thesis
  proof (cases "\<bar>b\<bar> < 2 ^ 53")
    case True
    then show ?thesis using b by (simp add: Number_exact)
  next
    case False
    then have "2 ^ 53 \<le> \<bar>b\<bar>" by simp
    then have "2 ^ 53 \<le> roundMagnitude \<bar>b\<bar>" by (rule roundMagnitude_large)
    then show ?thesis using b by (simp add: Number_def Let_def)
  qed
qed

lemma Number_big:
  "2 ^ 53 \<le> b \<Longrightarrow> Number b = PosInfinity \<or> (\<exists>a. Number b = Finite a \<and> 2 ^ 53 \<le> a)"
proof -
  assume b: "2 ^ 53 \<le> b"
  then have "2 ^ 53 \<le> \<bar>b\<bar>" by simp
  then have "2 ^ 53 \<le> roundMagnitude \<bar>b\<bar>" by (rule roundMagnitude_large)
  moreover have "\<not> b < 0" using b by (simp add: order_less_le_trans [of 0 "2 ^ 53" b] not_less)
  ultimately show ?thesis by (simp add: Number_def Let_def)
qed

lemma getListElem_in:
  "0 \<le> a \<Longrightarrow> a < int (length l) \<Longrightarrow> getListElem l (Finite a) = Inr (l ! nat a)"
  by (simp add: getListElem_def inBounds_def listGet_def)

lemma getListElem_out:
  "\<not> inBounds idx (length l) \<Longrightarrow> getListElem l idx = Inl (outOfBounds idx)"
  by (simp add: getListElem_def)

lemma Number_neg_out: "b < 0 \<Longrightarrow> \<not> inBounds (Number b) n"
  using Number_neg [of b] by (auto simp add: inBounds_def)

lemma Number_ge_out:
  assumes "int n < 2 ^ 53" and "int n \<le> b"
  shows "\<not> inBounds (Number b) n"
proof (cases "b < 2 ^ 53")
  case True
  with assms have "\<bar>b\<bar> < 2 ^ 53" by simp
  then show ?thesis using assms by (simp add: Number_exact inBounds_def)
next
  case False
  then have "2 ^ 53 \<le> b" by simp
  from Number_big [OF this] show ?thesis using assms by (auto simp add: inBounds_def)
qed

lemma minusOne_Number_out_low:
  assumes "b \<le> 0" shows "\<not> inBounds (minusOne (Number b)) n"
proof (cases "\<bar>b\<bar> < 2 ^ 53")
  case True
  then show ?thesis using assms by (simp add: Number_exact minusOne_def Number_neg_out)
next
  case False
  with assms have "b < 0" by auto
  from Number_neg [OF this] show ?thesis
  proof
    assume "Number b = NegInfinity" then show ?thesis by (simp add: minusOne_def inBounds_def)
  next
    assume "\<exists>a. Number b = Finite a \<and> a < 0"
    then obtain a where a: "Number b = Finite a" "a < 0" by blast
    then have "\<not> inBounds (Number (a - 1)) n" by (intro Number_neg_out) simp
    with a show ?thesis by (simp add: minusOne_def)
  qed
qed

lemma minusOne_Number_out_high: 
  assumes "int n < 2 ^ 53" and "int n < b" shows "\<not> inBounds (minusOne (Number b)) n"
proof (cases "b < 2 ^ 53")
  case True
  with assms have "\<bar>b\<bar> < 2 ^ 53" by simp
  moreover from assms have "\<not> inBounds (Number (b - 1)) n" by (intro Number_ge_out) simp_all
  ultimately show ?thesis by (simp add: Number_exact minusOne_def)
next
  case False
  then have "2 ^ 53 \<le> b" by simp
  from Number_big [OF this] show ?thesis
  proof
    assume "Number b = PosInfinity" then show ?thesis by (simp add: minusOne_def inBounds_def)
  next
    assume "\<exists>a. Number b = Finite a \<and> 2 ^ 53 \<le> a"
    then obtain a where a: "Number b = Finite a" "2 ^ 53 \<le> a" by blast
    with assms have "int n \<le> a - 1" by linarith
    with assms(1) have "\<not> inBounds (Number (a - 1)) n" by (rule Number_ge_out)
    with a show ?thesis by (simp add: minusOne_def)
  qed
qed

text \<open>
  Claim C9. \<open>ipow\<close> applied to the integers \<open>b\<close> and \<open>e\<close> returns an error of code
  \<open>QNT503\<close> exactly when \<open>b = 0\<close> and \<open>e = 0\<close>, or \<open>e < 0\<close>; in every other case it
  returns the integer \<open>b\<close> raised to the power \<open>e\<close>.
\<close>

theorem ipow_error_iff:
  "((\<exists>err. builtinLambda_ipow [RvInt b, RvInt e] = Returns (Inl err) \<and> code err = ''QNT503'')
      \<longleftrightarrow> (b = 0 \<and> e = 0) \<or> e < 0)
   \<and> (\<not> ((b = 0 \<and> e = 0) \<or> e < 0) \<longrightarrow>
        builtinLambda_ipow [RvInt b, RvInt e] = Returns (Inr (RvInt (b ^ nat e))))"
  by (auto simp add: builtinLambda_ipow_def arg_def toInt_def)

theorem ipow_error_iff_witness:
  "builtinLambda_ipow [RvInt 2, RvInt 10] = Returns (Inr (RvInt 1024))
   \<and> (\<exists>err. builtinLambda_ipow [RvInt 0, RvInt 0] = Returns (Inl err) \<and> code err = ''QNT503'')
   \<and> (\<exists>err. builtinLambda_ipow [RvInt 3, RvInt (- 1)] = Returns (Inl err) \<and> code err = ''QNT503'')"
  using ipow_error_iff [of 2 10] ipow_error_iff [of 0 0] ipow_error_iff [of 3 "- 1"] by simp

text \<open>
  Claim C10. List indexing is total through the error channel: for a list \<open>l\<close> and an
  integer \<open>i\<close>, \<open>nth\<close> returns the element at the 0-based position \<open>i\<close> when
  \<open>0 \<le> i < length l\<close> and otherwise an out-of-bounds error of code \<open>QNT510\<close>; it never
  throws. \<open>item\<close> does the same with 1-based indices. The list is shorter than \<open>2^53\<close>
  elements, as every list the runtime can hold is; the index is any integer, also one
  that its conversion to a double rounds.
\<close>

theorem list_indexing_total:
  assumes "int (length l) < 2 ^ 53"
  shows "builtinLambda_nth [RvTupleOrList l, RvInt i] =
           Returns (if 0 \<le> i \<and> i < int (length l) then Inr (l ! nat i)
                    else Inl (outOfBounds (Number i)))
       \<and> builtinLambda_item [RvTupleOrList l, RvInt i] =
           Returns (if 1 \<le> i \<and> i \<le> int (length l) then Inr (l ! nat (i - 1))
                    else Inl (outOfBounds (minusOne (Number i))))
       \<and> code (outOfBounds idx) = ''QNT510''"
proof (intro conjI)
  show "builtinLambda_nth [RvTupleOrList l, RvInt i] =
           Returns (if 0 \<le> i \<and> i < int (length l) then Inr (l ! nat i)
                    else Inl (outOfBounds (Number i)))"
  proof (cases "0 \<le> i \<and> i < int (length l)")
    case True
    with assms have "\<bar>i\<bar> < 2 ^ 53" by simp
    with True show ?thesis
      by (simp add: builtinLambda_nth_def arg_def toList_def toInt_def Number_exact getListElem_in)
  next
    case False
    then have "\<not> inBounds (Number i) (length l)"
      using Number_neg_out [of i "length l"] Number_ge_out [OF assms, of i] by auto
    with False show ?thesis
      by (simp add: builtinLambda_nth_def arg_def toList_def toInt_def getListElem_out)
  qed
  show "builtinLambda_item [RvTupleOrList l, RvInt i] =
           Returns (if 1 \<le> i \<and> i \<le> int (length l) then Inr (l ! nat (i - 1))
                    else Inl (outOfBounds (minusOne (Number i))))"
  proof (cases "1 \<le> i \<and> i \<le> int (length l)")
    case True
    with assms have "\<bar>i\<bar> < 2 ^ 53" "\<bar>i - 1\<bar> < 2 ^ 53" by simp_all
    with True show ?thesis
      by (simp add: builtinLambda_item_def arg_def toList_def toInt_def Number_exact
          minusOne_def getListElem_in)
  next
    case False
    then have "\<not> inBounds (minusOne (Number i)) (length l)"
      using minusOne_Number_out_low [of i "length l"] minusOne_Number_out_high [OF assms, of i]
      by auto
    with False show ?thesis
      by (simp add: builtinLambda_item_def arg_def toList_def toInt_def getListElem_out)
  qed
  show "code (outOfBounds idx) = ''QNT510''" by (simp add: outOfBounds_def)
qed

theorem list_indexing_total_witness:
  "int (length [RvInt 10, RvInt 20]) < 2 ^ 53
   \<and> builtinLambda_nth [RvTupleOrList [RvInt 10, RvInt 20], RvInt 1] = Returns (Inr (RvInt 20))
   \<and> builtinLambda_item [RvTupleOrList [RvInt 10, RvInt 20], RvInt 1] = Returns (Inr (RvInt 10))
   \<and> builtinLambda_nth [RvTupleOrList [RvInt 10, RvInt 20], RvInt 2] =
       Returns (Inl (outOfBounds (Number 2)))
   \<and> builtinLambda_item [RvTupleOrList [RvInt 10, RvInt 20], RvInt 0] =
       Returns (Inl (outOfBounds (minusOne (Number 0))))"
  using list_indexing_total [of "[RvInt 10, RvInt 20]" 1]
    list_indexing_total [of "[RvInt 10, RvInt 20]" 2]
    list_indexing_total [of "[RvInt 10, RvInt 20]" 0]
  by simp

section \<open>Properties of the unifier\<close>

text \<open>The definitions of the instance of the collaborators, for evaluating concrete runs.\<close>

lemmas spec_defs = specExt_def variablesToStringSpec_def sortStrings_def
  effectComponentToStringSpec_def orderedByKind_def mergeComponents_def
  applySubstitutionToVariablesSpec_def applySubstitutionSpec_def composeSpec_def

subsection \<open>The kind interaction table\<close>

text \<open>
  The decision for one pair of components, the fold of the pairs, the components whose kind
  the other effect lacks, and the place of \<open>unifyConcrete\<close> in \<open>unify\<close>.
\<close>

lemma unifyComponents_table:
  "(readPaired (kind ca) (kind cb) \<longrightarrow>
      unifyComponents ext fuel loc subs ca cb = Some (Inr []))
   \<and> (kind ca = Update \<and> kind cb = Temporal \<longrightarrow>
      unifyComponents ext fuel loc subs ca cb =
        mapLeft One (unifyVariables ext fuel (ConcreteV [])
          (applySubstitutionToVariables ext subs (variables cb))))
   \<and> (kind ca = Temporal \<and> kind cb = Update \<longrightarrow>
      unifyComponents ext fuel loc subs ca cb =
        mapLeft One (unifyVariables ext fuel
          (applySubstitutionToVariables ext subs (variables ca)) (ConcreteV [])))"
  by (auto simp add: unifyComponents_def areCompatible_def isDominant_def readPaired_def
      compatibleComponentKinds_def Let_def)

lemma generalStep_readPaired:
  "readPaired (kind ca) (kind cb) \<Longrightarrow>
     generalStep ext fuel loc ca r cb = chain r (\<lambda>s. Some (compose ext s []))"
  using unifyComponents_table [of ca cb ext fuel loc]
  by (auto simp add: generalStep_def chain_def split: option.splits sum.splits)

lemma foldl_generalStep_readPaired:
  "\<forall>cb \<in> set cs2. readPaired (kind ca) (kind cb) \<Longrightarrow>
     foldl (generalStep ext fuel loc ca) r cs2
       = foldl (\<lambda>r p. chain r (\<lambda>s. Some (compose ext s []))) r (map (Pair ca) cs2)"
  by (induction cs2 arbitrary: r) (simp_all add: generalStep_readPaired)

lemma generalResult_readPaired_aux:
  "\<forall>ca \<in> set cs1. \<forall>cb \<in> set cs2. readPaired (kind ca) (kind cb) \<Longrightarrow>
     foldl (\<lambda>result ca. foldl (generalStep ext fuel loc ca) result cs2) r cs1
       = foldl (\<lambda>r p. chain r (\<lambda>s. Some (compose ext s []))) r (List.product cs1 cs2)"
  by (induction cs1 arbitrary: r) (simp_all add: foldl_generalStep_readPaired)

lemma generalResult_single:
  "generalResult ext fuel loc [ca] [cb] =
     chain (unifyComponents ext fuel loc [] ca cb) (\<lambda>s. Some (compose ext [] s))"
  by (simp add: generalResult_def generalStep_def chain_def split: option.splits sum.splits)

lemma nullify_fold_Inr:
  "foldl (\<lambda>result c2. chain result (\<lambda>subs.
            if P c2 then chain (mapLeft One (U c2)) (\<lambda>s. Some (compose ext subs s))
            else Some (Inr subs))) r0 cs = Some (Inr s)
   \<Longrightarrow> (\<exists>s0. r0 = Some (Inr s0)) \<and> (\<forall>c \<in> set cs. P c \<longrightarrow> (\<exists>s'. U c = Some (Inr s')))"
proof (induction cs arbitrary: r0)
  case Nil
  then show ?case by simp
next
  case (Cons c cs)
  let ?step = "chain r0 (\<lambda>subs.
            if P c then chain (mapLeft One (U c)) (\<lambda>s. Some (compose ext subs s))
            else Some (Inr subs))"
  from Cons.prems have "foldl (\<lambda>result c2. chain result (\<lambda>subs.
            if P c2 then chain (mapLeft One (U c2)) (\<lambda>s. Some (compose ext subs s))
            else Some (Inr subs))) ?step cs = Some (Inr s)" by simp
  from Cons.IH [OF this] obtain s1 where s1: "?step = Some (Inr s1)"
    and rest: "\<forall>c \<in> set cs. P c \<longrightarrow> (\<exists>s'. U c = Some (Inr s'))" by blast
  from s1 obtain s0 where r0: "r0 = Some (Inr s0)"
    by (auto simp add: chain_def split: option.splits sum.splits)
  from s1 r0 have "P c \<longrightarrow> (\<exists>s'. U c = Some (Inr s'))"
    by (auto simp add: chain_def mapLeft_def split: option.splits sum.splits if_splits)
  with r0 rest show ?case by simp
qed

lemma unifyConcrete_Inr:
  assumes "unifyConcrete ext fuel loc cs1 cs2 = Some (Inr s)"
  shows "(\<forall>c \<in> set cs1. \<not> list_ex (\<lambda>c'. kind c' = kind c) cs2 \<longrightarrow>
            (\<exists>s'. unifyVariables ext fuel (variables c) (ConcreteV []) = Some (Inr s')))
       \<and> (\<forall>c \<in> set cs2. \<not> list_ex (\<lambda>c'. kind c' = kind c) cs1 \<longrightarrow>
            (\<exists>s'. unifyVariables ext fuel (ConcreteV []) (variables c) = Some (Inr s')))"
proof -
  from assms obtain s1 s2 where r1: "e1Result ext fuel cs1 cs2 = Some (Inr s1)"
    and r2: "e2Result ext fuel cs1 cs2 = Some (Inr s2)"
    by (auto simp add: unifyConcrete_def Let_def chain_def split: option.splits sum.splits if_splits)
  from nullify_fold_Inr [OF r1 [unfolded e1Result_def]] nullify_fold_Inr [OF r2 [unfolded e2Result_def]]
  show ?thesis by blast
qed

lemma unifyConcrete_single:
  "kind ca \<noteq> kind cb \<Longrightarrow>
     unifyConcrete ext fuel loc [ca] [cb] =
       (let g = generalResult ext fuel loc [ca] [cb];
            r1 = chain (mapLeft One (unifyVariables ext fuel (variables ca) (ConcreteV [])))
                   (\<lambda>s. Some (compose ext [] s));
            r2 = chain (mapLeft One (unifyVariables ext fuel (ConcreteV []) (variables cb)))
                   (\<lambda>s. Some (compose ext [] s))
        in if g = None \<or> r1 = None \<or> r2 = None then None
           else chain (chain r1 (\<lambda>s1. chain r2 (\<lambda>s2. Some (compose ext s1 s2))))
                  (\<lambda>s1. chain g (\<lambda>s2. Some (compose ext s1 s2))))"
  by (simp add: unifyConcrete_def e1Result_def e2Result_def chain_def Let_def)

lemma unify_concrete:
  "simplify ext a = ConcreteE cs1 \<Longrightarrow> simplify ext b = ConcreteE cs2 \<Longrightarrow>
   effectToString ext (ConcreteE cs1) \<noteq> effectToString ext (ConcreteE cs2) \<Longrightarrow>
     unify ext (Suc fuel) a b =
       mapLeft (buildErrorTree (''Trying to unify '' @ effectToString ext a @ '' and ''
                                @ effectToString ext b))
         (unifyConcrete ext fuel
            (''Trying to unify '' @ effectToString ext a @ '' and '' @ effectToString ext b) cs1 cs2)"
  by (simp add: Let_def)

text \<open>
  Claim C1, amended. In the unification of two concrete effects every pair of components,
  one of each effect, is decided by the table of kinds: a pair of kinds Read/Update or
  Read/Temporal, in either order, unifies with the empty substitution whatever the
  variables are, and the accumulated substitutions are composed with the empty one, so
  that over effects all of whose pairs are such the pairs contribute compositions with
  the empty substitution only; for a pair Update/Temporal, in either order, the result is
  that of unifying the Temporal component's variables (under the substitutions
  accumulated so far) with the empty variables. Besides the pairs, every component whose
  kind the other effect lacks has its variables unified with the empty variables: for two
  components of different kinds the result of \<open>unifyConcrete\<close> is composed of these two
  unifications and of the result of the pair, and whenever \<open>unifyConcrete\<close> succeeds every
  such unification has succeeded. \<open>unify\<close> on two effects that simplify to concrete
  effects of different printed forms returns the result of \<open>unifyConcrete\<close> on their
  components, its error put under the location of the two effects.
\<close>

theorem kinds_table:
  "(readPaired (kind ca) (kind cb) \<longrightarrow>
      unifyComponents ext fuel loc subs ca cb = Some (Inr [])
      \<and> generalStep ext fuel loc ca (Some (Inr subs)) cb = Some (compose ext subs []))
   \<and> ((\<forall>ca1 \<in> set csa. \<forall>cb1 \<in> set csb. readPaired (kind ca1) (kind cb1)) \<longrightarrow>
      generalResult ext fuel loc csa csb =
        foldl (\<lambda>r p. chain r (\<lambda>s. Some (compose ext s []))) (Some (Inr [])) (List.product csa csb))
   \<and> (kind ca = Update \<and> kind cb = Temporal \<longrightarrow>
      unifyComponents ext fuel loc subs ca cb =
        mapLeft One (unifyVariables ext fuel (ConcreteV [])
          (applySubstitutionToVariables ext subs (variables cb)))
      \<and> generalResult ext fuel loc [ca] [cb] =
        chain (mapLeft One (unifyVariables ext fuel (ConcreteV [])
                 (applySubstitutionToVariables ext [] (variables cb))))
          (\<lambda>s. Some (compose ext [] s)))
   \<and> (kind ca = Temporal \<and> kind cb = Update \<longrightarrow>
      unifyComponents ext fuel loc subs ca cb =
        mapLeft One (unifyVariables ext fuel
          (applySubstitutionToVariables ext subs (variables ca)) (ConcreteV []))
      \<and> generalResult ext fuel loc [ca] [cb] =
        chain (mapLeft One (unifyVariables ext fuel
                 (applySubstitutionToVariables ext [] (variables ca)) (ConcreteV [])))
          (\<lambda>s. Some (compose ext [] s)))
   \<and> (kind ca \<noteq> kind cb \<longrightarrow>
      unifyConcrete ext fuel loc [ca] [cb] =
        (let g = generalResult ext fuel loc [ca] [cb];
             r1 = chain (mapLeft One (unifyVariables ext fuel (variables ca) (ConcreteV [])))
                    (\<lambda>s. Some (compose ext [] s));
             r2 = chain (mapLeft One (unifyVariables ext fuel (ConcreteV []) (variables cb)))
                    (\<lambda>s. Some (compose ext [] s))
         in if g = None \<or> r1 = None \<or> r2 = None then None
            else chain (chain r1 (\<lambda>s1. chain r2 (\<lambda>s2. Some (compose ext s1 s2))))
                   (\<lambda>s1. chain g (\<lambda>s2. Some (compose ext s1 s2)))))
   \<and> (unifyConcrete ext fuel loc csa csb = Some (Inr s) \<longrightarrow>
        (\<forall>c \<in> set csa. \<not> list_ex (\<lambda>c'. kind c' = kind c) csb \<longrightarrow>
            (\<exists>s'. unifyVariables ext fuel (variables c) (ConcreteV []) = Some (Inr s')))
      \<and> (\<forall>c \<in> set csb. \<not> list_ex (\<lambda>c'. kind c' = kind c) csa \<longrightarrow>
            (\<exists>s'. unifyVariables ext fuel (ConcreteV []) (variables c) = Some (Inr s'))))
   \<and> (simplify ext a = ConcreteE csa \<and> simplify ext b = ConcreteE csb
        \<and> effectToString ext (ConcreteE csa) \<noteq> effectToString ext (ConcreteE csb) \<longrightarrow>
      unify ext (Suc fuel) a b =
        mapLeft (buildErrorTree (''Trying to unify '' @ effectToString ext a @ '' and ''
                                 @ effectToString ext b))
          (unifyConcrete ext fuel
             (''Trying to unify '' @ effectToString ext a @ '' and '' @ effectToString ext b)
             csa csb))"
proof (intro conjI impI)
  assume "readPaired (kind ca) (kind cb)"
  then show "unifyComponents ext fuel loc subs ca cb = Some (Inr [])"
    using unifyComponents_table [of ca cb ext fuel loc subs] by simp
  then show "generalStep ext fuel loc ca (Some (Inr subs)) cb = Some (compose ext subs [])"
    by (simp add: generalStep_def chain_def)
next
  assume "\<forall>ca1 \<in> set csa. \<forall>cb1 \<in> set csb. readPaired (kind ca1) (kind cb1)"
  then show "generalResult ext fuel loc csa csb =
        foldl (\<lambda>r p. chain r (\<lambda>s. Some (compose ext s []))) (Some (Inr [])) (List.product csa csb)"
    unfolding generalResult_def by (rule generalResult_readPaired_aux)
next
  assume h: "kind ca = Update \<and> kind cb = Temporal"
  then show "unifyComponents ext fuel loc subs ca cb =
        mapLeft One (unifyVariables ext fuel (ConcreteV [])
          (applySubstitutionToVariables ext subs (variables cb)))"
    using unifyComponents_table [of ca cb ext fuel loc subs] by simp
  from h show "generalResult ext fuel loc [ca] [cb] =
        chain (mapLeft One (unifyVariables ext fuel (ConcreteV [])
                 (applySubstitutionToVariables ext [] (variables cb))))
          (\<lambda>s. Some (compose ext [] s))"
    using unifyComponents_table [of ca cb ext fuel loc "[]"] by (simp add: generalResult_single)
next
  assume h: "kind ca = Temporal \<and> kind cb = Update"
  then show "unifyComponents ext fuel loc subs ca cb =
        mapLeft One (unifyVariables ext fuel
          (applySubstitutionToVariables ext subs (variables ca)) (ConcreteV []))"
    using unifyComponents_table [of ca cb ext fuel loc subs] by simp
  from h show "generalResult ext fuel loc [ca] [cb] =
        chain (mapLeft One (unifyVariables ext fuel
                 (applySubstitutionToVariables ext [] (variables ca)) (ConcreteV [])))
          (\<lambda>s. Some (compose ext [] s))"
    using unifyComponents_table [of ca cb ext fuel loc "[]"] by (simp add: generalResult_single)
next
  assume "kind ca \<noteq> kind cb"
  then show "unifyConcrete ext fuel loc [ca] [cb] =
        (let g = generalResult ext fuel loc [ca] [cb];
             r1 = chain (mapLeft One (unifyVariables ext fuel (variables ca) (ConcreteV [])))
                    (\<lambda>s. Some (compose ext [] s));
             r2 = chain (mapLeft One (unifyVariables ext fuel (ConcreteV []) (variables cb)))
                    (\<lambda>s. Some (compose ext [] s))
         in if g = None \<or> r1 = None \<or> r2 = None then None
            else chain (chain r1 (\<lambda>s1. chain r2 (\<lambda>s2. Some (compose ext s1 s2))))
                   (\<lambda>s1. chain g (\<lambda>s2. Some (compose ext s1 s2))))"
    by (rule unifyConcrete_single)
next
  assume u: "unifyConcrete ext fuel loc csa csb = Some (Inr s)"
  from unifyConcrete_Inr [OF u]
  show "\<forall>c \<in> set csa. \<not> list_ex (\<lambda>c'. kind c' = kind c) csb \<longrightarrow>
            (\<exists>s'. unifyVariables ext fuel (variables c) (ConcreteV []) = Some (Inr s'))"
    and "\<forall>c \<in> set csb. \<not> list_ex (\<lambda>c'. kind c' = kind c) csa \<longrightarrow>
            (\<exists>s'. unifyVariables ext fuel (ConcreteV []) (variables c) = Some (Inr s'))"
    by blast+
next
  assume "simplify ext a = ConcreteE csa \<and> simplify ext b = ConcreteE csb
        \<and> effectToString ext (ConcreteE csa) \<noteq> effectToString ext (ConcreteE csb)"
  then show "unify ext (Suc fuel) a b =
        mapLeft (buildErrorTree (''Trying to unify '' @ effectToString ext a @ '' and ''
                                 @ effectToString ext b))
          (unifyConcrete ext fuel
             (''Trying to unify '' @ effectToString ext a @ '' and '' @ effectToString ext b)
             csa csb)"
    by (simp add: Let_def)
qed


theorem kinds_table_witness:
  "unifyComponents specExt (Suc 0) ''l'' []
      \<lparr> kind = Read, variables = QuantifiedV ''a'' None \<rparr>
      \<lparr> kind = Update, variables = ConcreteV [\<lparr> name = ''x'', reference = 1 \<rparr>] \<rparr> = Some (Inr [])
   \<and> generalResult specExt (Suc 0) ''l''
      [\<lparr> kind = Read, variables = QuantifiedV ''a'' None \<rparr>]
      [\<lparr> kind = Update, variables = QuantifiedV ''u'' None \<rparr>,
       \<lparr> kind = Temporal, variables = QuantifiedV ''t'' None \<rparr>] = Some (Inr [])
   \<and> generalResult specExt (Suc 0) ''l''
      [\<lparr> kind = Update, variables = ConcreteV [\<lparr> name = ''x'', reference = 1 \<rparr>] \<rparr>]
      [\<lparr> kind = Temporal, variables = QuantifiedV ''t'' None \<rparr>]
       = Some (Inr [SubVariable ''t'' (ConcreteV [])])
   \<and> generalResult specExt (Suc 0) ''l''
      [\<lparr> kind = Temporal, variables = QuantifiedV ''t'' None \<rparr>]
      [\<lparr> kind = Update, variables = ConcreteV [\<lparr> name = ''x'', reference = 1 \<rparr>] \<rparr>]
       = Some (Inr [SubVariable ''t'' (ConcreteV [])])
   \<and> unifyConcrete specExt (Suc 0) ''l''
      [\<lparr> kind = Read, variables = QuantifiedV ''a'' None \<rparr>]
      [\<lparr> kind = Update, variables = QuantifiedV ''u'' None \<rparr>]
       = Some (Inr [SubVariable ''a'' (ConcreteV []), SubVariable ''u'' (ConcreteV [])])
   \<and> (\<exists>s'. unifyVariables specExt (Suc 0) (QuantifiedV ''a'' None) (ConcreteV []) = Some (Inr s'))
   \<and> (\<exists>s'. unifyVariables specExt (Suc 0) (ConcreteV []) (QuantifiedV ''u'' None) = Some (Inr s'))
   \<and> unify specExt (Suc (Suc 0))
      (ConcreteE [\<lparr> kind = Read, variables = QuantifiedV ''a'' None \<rparr>])
      (ConcreteE [\<lparr> kind = Update, variables = QuantifiedV ''u'' None \<rparr>])
       = Some (Inr [SubVariable ''a'' (ConcreteV []), SubVariable ''u'' (ConcreteV [])])"
proof -
  let ?ra = "\<lparr> kind = Read, variables = QuantifiedV ''a'' None \<rparr>"
  let ?uu = "\<lparr> kind = Update, variables = QuantifiedV ''u'' None \<rparr>"
  let ?ux = "\<lparr> kind = Update, variables = ConcreteV [\<lparr> name = ''x'', reference = 1 \<rparr>] \<rparr>"
  let ?tt = "\<lparr> kind = Temporal, variables = QuantifiedV ''t'' None \<rparr>"
  let ?sub = "[SubVariable ''a'' (ConcreteV []), SubVariable ''u'' (ConcreteV [])]"
  note k1 = kinds_table [where ca = ?ra and cb = ?ux and ext = specExt and fuel = "Suc 0"
      and loc = "''l''" and subs = "[]" and csa = "[?ra]" and csb = "[?uu, ?tt]" and s = ?sub
      and a = "ConcreteE [?ra]" and b = "ConcreteE [?uu]"]
  note k2 = kinds_table [where ca = ?ux and cb = ?tt and ext = specExt and fuel = "Suc 0"
      and loc = "''l''" and subs = "[]" and csa = "[?ra]" and csb = "[?uu]" and s = ?sub
      and a = "ConcreteE [?ra]" and b = "ConcreteE [?uu]"]
  note k3 = kinds_table [where ca = ?tt and cb = ?ux and ext = specExt and fuel = "Suc 0"
      and loc = "''l''" and subs = "[]" and csa = "[?ra]" and csb = "[?uu]" and s = ?sub
      and a = "ConcreteE [?ra]" and b = "ConcreteE [?uu]"]
  note k4 = kinds_table [where ca = ?ra and cb = ?uu and ext = specExt and fuel = "Suc 0"
      and loc = "''l''" and subs = "[]" and csa = "[?ra]" and csb = "[?uu]" and s = ?sub
      and a = "ConcreteE [?ra]" and b = "ConcreteE [?uu]"]
  have p1: "readPaired (kind ?ra) (kind ?ux)" by (simp add: readPaired_def)
  have p2: "\<forall>ca1 \<in> set [?ra]. \<forall>cb1 \<in> set [?uu, ?tt]. readPaired (kind ca1) (kind cb1)"
    by (simp add: readPaired_def)
  have p3: "kind ?ux = Update \<and> kind ?tt = Temporal" by simp
  have p5: "kind ?ra \<noteq> kind ?uu" by simp
  have p7: "simplify specExt (ConcreteE [?ra]) = ConcreteE [?ra]
      \<and> simplify specExt (ConcreteE [?uu]) = ConcreteE [?uu]
      \<and> effectToString specExt (ConcreteE [?ra]) \<noteq> effectToString specExt (ConcreteE [?uu])"
    by code_simp
  from k1 p1 have w1: "unifyComponents specExt (Suc 0) ''l'' [] ?ra ?ux = Some (Inr [])"
    by blast
  from k1 p2 have "generalResult specExt (Suc 0) ''l'' [?ra] [?uu, ?tt] =
      foldl (\<lambda>r p. chain r (\<lambda>s. Some (compose specExt s []))) (Some (Inr []))
        (List.product [?ra] [?uu, ?tt])"
    by blast
  also have "\<dots> = Some (Inr [])" by code_simp
  finally have w2: "generalResult specExt (Suc 0) ''l'' [?ra] [?uu, ?tt] = Some (Inr [])" .
  from k2 p3 have "generalResult specExt (Suc 0) ''l'' [?ux] [?tt] =
      chain (mapLeft One (unifyVariables specExt (Suc 0) (ConcreteV [])
               (applySubstitutionToVariables specExt [] (variables ?tt))))
        (\<lambda>s. Some (compose specExt [] s))"
    by blast
  also have "\<dots> = Some (Inr [SubVariable ''t'' (ConcreteV [])])" by code_simp
  finally have w3: "generalResult specExt (Suc 0) ''l'' [?ux] [?tt]
      = Some (Inr [SubVariable ''t'' (ConcreteV [])])" .
  from k3 p3 have "generalResult specExt (Suc 0) ''l'' [?tt] [?ux] =
      chain (mapLeft One (unifyVariables specExt (Suc 0)
               (applySubstitutionToVariables specExt [] (variables ?tt)) (ConcreteV [])))
        (\<lambda>s. Some (compose specExt [] s))"
    by blast
  also have "\<dots> = Some (Inr [SubVariable ''t'' (ConcreteV [])])" by code_simp
  finally have w4: "generalResult specExt (Suc 0) ''l'' [?tt] [?ux]
      = Some (Inr [SubVariable ''t'' (ConcreteV [])])" .
  from k4 p5 have "unifyConcrete specExt (Suc 0) ''l'' [?ra] [?uu] =
        (let g = generalResult specExt (Suc 0) ''l'' [?ra] [?uu];
             r1 = chain (mapLeft One (unifyVariables specExt (Suc 0) (variables ?ra) (ConcreteV [])))
                    (\<lambda>s. Some (compose specExt [] s));
             r2 = chain (mapLeft One (unifyVariables specExt (Suc 0) (ConcreteV []) (variables ?uu)))
                    (\<lambda>s. Some (compose specExt [] s))
         in if g = None \<or> r1 = None \<or> r2 = None then None
            else chain (chain r1 (\<lambda>s1. chain r2 (\<lambda>s2. Some (compose specExt s1 s2))))
                   (\<lambda>s1. chain g (\<lambda>s2. Some (compose specExt s1 s2))))"
    by blast
  also have "\<dots> = Some (Inr ?sub)" by code_simp
  finally have w5: "unifyConcrete specExt (Suc 0) ''l'' [?ra] [?uu] = Some (Inr ?sub)" .
  from k4 w5 have w6: "(\<exists>s'. unifyVariables specExt (Suc 0) (QuantifiedV ''a'' None) (ConcreteV [])
        = Some (Inr s'))
      \<and> (\<exists>s'. unifyVariables specExt (Suc 0) (ConcreteV []) (QuantifiedV ''u'' None) = Some (Inr s'))"
    by simp
  from k4 p7 have "unify specExt (Suc (Suc 0)) (ConcreteE [?ra]) (ConcreteE [?uu]) =
        mapLeft (buildErrorTree (''Trying to unify '' @ effectToString specExt (ConcreteE [?ra])
                                 @ '' and '' @ effectToString specExt (ConcreteE [?uu])))
          (unifyConcrete specExt (Suc 0)
             (''Trying to unify '' @ effectToString specExt (ConcreteE [?ra]) @ '' and ''
               @ effectToString specExt (ConcreteE [?uu]))
             [?ra] [?uu])"
    by blast
  also have "\<dots> = Some (Inr ?sub)" by code_simp
  finally have w7: "unify specExt (Suc (Suc 0)) (ConcreteE [?ra]) (ConcreteE [?uu])
      = Some (Inr ?sub)" .
  from w1 w2 w3 w4 w5 w6 w7 show ?thesis by blast
qed

text \<open>
  The claim C1 as stated has \<open>unify\<close> succeed on a Read/Update pair whatever the
  variables are, and on an Update/Temporal pair as soon as the Temporal variables unify
  with the empty variables. \<open>unify\<close> of \<open>Read[a]\<close> with an update of the state variable
  \<open>x\<close> fails, since the update has no counterpart and \<open>x\<close> does not unify with the empty
  variables; and \<open>unify\<close> of that update with \<open>Temporal[t]\<close> fails, although \<open>t\<close> unifies
  with the empty variables.
\<close>

theorem unify_kinds_nullified:
  "unify specExt (Suc (Suc 0))
      (ConcreteE [\<lparr> kind = Read, variables = QuantifiedV ''a'' None \<rparr>])
      (ConcreteE [\<lparr> kind = Update, variables = ConcreteV [\<lparr> name = ''x'', reference = 1 \<rparr>] \<rparr>])
     = Some (Inl (ErrorTree
         (''Trying to unify Read[a] and Update['' @ [CHR 0x27] @ ''x'' @ [CHR 0x27] @ '']'') None
         [ErrorTree (''Trying to unify variables [] and ['' @ [CHR 0x27] @ ''x'' @ [CHR 0x27] @ '']'')
            (Some ''Expected variables [] and [x] to be the same'') []]))
   \<and> unifyVariables specExt (Suc 0) (ConcreteV []) (QuantifiedV ''t'' None)
     = Some (Inr [SubVariable ''t'' (ConcreteV [])])
   \<and> unify specExt (Suc (Suc 0))
      (ConcreteE [\<lparr> kind = Update, variables = ConcreteV [\<lparr> name = ''x'', reference = 1 \<rparr>] \<rparr>])
      (ConcreteE [\<lparr> kind = Temporal, variables = QuantifiedV ''t'' None \<rparr>])
     = Some (Inl (ErrorTree
         (''Trying to unify Update['' @ [CHR 0x27] @ ''x'' @ [CHR 0x27] @ ''] and Temporal[t]'') None
         [ErrorTree (''Trying to unify variables ['' @ [CHR 0x27] @ ''x'' @ [CHR 0x27] @ ''] and []'')
            (Some ''Expected variables [x] and [] to be the same'') []]))"
  by code_simp

subsection \<open>Tuple unpacking\<close>

lemma firstOcc_snoc: "firstOcc (xs @ [x]) = (if x \<in> set xs then firstOcc xs else firstOcc xs @ [x])"
  by (simp add: firstOcc_def)

lemma distinct_firstOcc: "distinct (firstOcc xs)"
  by (simp add: firstOcc_def)

lemma set_firstOcc: "set (firstOcc xs) = set xs"
  by (simp add: firstOcc_def)

lemma pushVariables_new:
  "k \<notin> fst ` set m \<Longrightarrow> pushVariables k v m = m @ [(k, [v])]"
  by (induction m) auto

lemma pushVariables_old:
  "k \<in> fst ` set m \<Longrightarrow> distinct (map fst m) \<Longrightarrow>
     pushVariables k v m = map (\<lambda>(k', vs). (k', if k' = k then vs @ [v] else vs)) m"
proof (induction m)
  case Nil
  then show ?case by simp
next
  case (Cons p m)
  obtain k' vs where p: "p = (k', vs)" by (cases p)
  show ?case
  proof (cases "k = k'")
    case True
    with Cons.prems p have "k \<notin> fst ` set m" by auto
    then have "map (\<lambda>(k', vs). (k', if k' = k then vs @ [v] else vs)) m = m"
      by (induction m) auto
    with True p show ?thesis by simp
  next
    case False
    with Cons p show ?thesis by auto
  qed
qed

lemma pushVariables_grouped:
  "pushVariables (kind c) (variables c) (groupedByKind cs) = groupedByKind (cs @ [c])"
proof (cases "kind c \<in> set (map kind cs)")
  case False
  then have nk: "\<And>x. x \<in> set cs \<Longrightarrow> kind x \<noteq> kind c"
    by (metis image_eqI list.set_map)
  from False have "kind c \<notin> fst ` set (groupedByKind cs)"
    by (simp add: groupedByKind_def image_image set_firstOcc)
  then have "pushVariables (kind c) (variables c) (groupedByKind cs)
               = groupedByKind cs @ [(kind c, [variables c])]"
    by (rule pushVariables_new)
  moreover have "map (\<lambda>k. (k, map variables (filter (\<lambda>c'. kind c' = k) (cs @ [c])))) (firstOcc (map kind cs))
       = map (\<lambda>k. (k, map variables (filter (\<lambda>c'. kind c' = k) cs))) (firstOcc (map kind cs))"
  proof (intro map_cong refl)
    fix k assume "k \<in> set (firstOcc (map kind cs))"
    then have "k \<noteq> kind c" using False by (metis set_firstOcc)
    then show "(k, map variables (filter (\<lambda>c'. kind c' = k) (cs @ [c])))
             = (k, map variables (filter (\<lambda>c'. kind c' = k) cs))" by simp
  qed
  moreover have "filter (\<lambda>c'. kind c' = kind c) cs = []"
    using nk by (auto simp add: filter_empty_conv)
  ultimately show ?thesis using False
    by (simp add: groupedByKind_def firstOcc_snoc)
next
  case True
  then have "kind c \<in> fst ` set (groupedByKind cs)"
    by (simp add: groupedByKind_def image_image set_firstOcc)
  moreover have "distinct (map fst (groupedByKind cs))"
    by (simp add: groupedByKind_def comp_def distinct_firstOcc)
  ultimately have "pushVariables (kind c) (variables c) (groupedByKind cs)
      = map (\<lambda>(k', vs). (k', if k' = kind c then vs @ [variables c] else vs)) (groupedByKind cs)"
    by (rule pushVariables_old)
  also have "\<dots> = groupedByKind (cs @ [c])"
    using True by (auto simp add: groupedByKind_def firstOcc_snoc)
  finally show ?thesis .
qed

lemma foldl_pushVariables:
  "foldl (\<lambda>m c. pushVariables (kind c) (variables c) m) [] cs = groupedByKind cs"
proof (induction cs rule: rev_induct)
  case Nil
  show ?case by (simp add: groupedByKind_def firstOcc_def)
next
  case (snoc c cs)
  then show ?case by (simp add: pushVariables_grouped)
qed

lemma foldl_collectVariables:
  "foldl collectVariables m es =
     foldl (\<lambda>m c. pushVariables (kind c) (variables c) m) m (concat (map componentsOf es))"
proof (induction es arbitrary: m)
  case Nil
  show ?case by simp
next
  case (Cons e es)
  then show ?case by (cases e) simp_all
qed

lemma unpacked_combined: "unpacked es = combinedByKind es"
  by (simp add: unpacked_def combinedByKind_def foldl_collectVariables foldl_pushVariables)

lemma tryToUnpack_ordered:
  "length shorter < length longer \<Longrightarrow>
     tryToUnpack ext loc shorter longer =
       (if length shorter \<noteq> 1
        then Inl (buildErrorLeaf loc
               (''Expected '' @ showNat (length longer) @ '' arguments, got ''
                @ showNat (length shorter)))
        else Inr (shorter, [simplify ext (unpacked longer)]))"
  by (subst tryToUnpack.simps) simp

lemma tryToUnpack_swapped:
  "length shorter < length longer \<Longrightarrow>
     tryToUnpack ext loc longer shorter = tryToUnpack ext loc shorter longer"
  by (subst tryToUnpack.simps) simp

text \<open>
  Claim C3, amended. For two parameter lists of different lengths, in either order of
  the arguments: when the shorter list does not have length 1, unpacking fails with
  \<open>Expected N arguments, got M\<close>, \<open>N\<close> the longer and \<open>M\<close> the shorter length; when the
  shorter list has length 1, whatever its single effect is, and every effect of the
  longer list is concrete, unpacking succeeds and returns the shorter list with one
  effect standing in for the longer list: the simplification of the concrete effect
  whose components are the components of the longer list combined by kind into unions.
\<close>

theorem tryToUnpack_differing:
  assumes "length shorter < length longer"
  shows "(length shorter \<noteq> 1 \<longrightarrow>
            tryToUnpack ext loc shorter longer =
              Inl (buildErrorLeaf loc
                (''Expected '' @ showNat (length longer) @ '' arguments, got ''
                 @ showNat (length shorter))))
       \<and> (length shorter = 1 \<and> list_all isConcreteE longer \<longrightarrow>
            tryToUnpack ext loc shorter longer =
              Inr (shorter, [simplify ext (combinedByKind longer)]))
       \<and> tryToUnpack ext loc longer shorter = tryToUnpack ext loc shorter longer"
proof (intro conjI impI)
  assume "length shorter \<noteq> 1"
  with assms show "tryToUnpack ext loc shorter longer =
      Inl (buildErrorLeaf loc
        (''Expected '' @ showNat (length longer) @ '' arguments, got ''
         @ showNat (length shorter)))"
    by (simp add: tryToUnpack_ordered)
next
  assume "length shorter = 1 \<and> list_all isConcreteE longer"
  with assms show "tryToUnpack ext loc shorter longer =
      Inr (shorter, [simplify ext (combinedByKind longer)])"
    by (simp add: tryToUnpack_ordered unpacked_combined)
next
  from assms show "tryToUnpack ext loc longer shorter = tryToUnpack ext loc shorter longer"
    by (rule tryToUnpack_swapped)
qed


theorem tryToUnpack_differing_witness:
  "length [QuantifiedE ''e'', QuantifiedE ''f''] < length [ConcreteE [], ConcreteE [], ConcreteE []]
   \<and> tryToUnpack specExt ''l'' [QuantifiedE ''e'', QuantifiedE ''f'']
      [ConcreteE [], ConcreteE [], ConcreteE []]
     = Inl (buildErrorLeaf ''l'' ''Expected 3 arguments, got 2'')
   \<and> list_all isConcreteE
        [ConcreteE [\<lparr> kind = Read, variables = QuantifiedV ''a'' None \<rparr>],
         ConcreteE [\<lparr> kind = Update, variables = QuantifiedV ''u'' None \<rparr>,
                    \<lparr> kind = Read, variables = QuantifiedV ''b'' None \<rparr>]]
   \<and> tryToUnpack specExt ''l''
      [ConcreteE [\<lparr> kind = Read, variables = QuantifiedV ''a'' None \<rparr>],
       ConcreteE [\<lparr> kind = Update, variables = QuantifiedV ''u'' None \<rparr>,
                  \<lparr> kind = Read, variables = QuantifiedV ''b'' None \<rparr>]]
      [ConcreteE [\<lparr> kind = Read, variables = QuantifiedV ''r'' None \<rparr>]]
     = Inr ([ConcreteE [\<lparr> kind = Read, variables = QuantifiedV ''r'' None \<rparr>]],
            [ConcreteE [\<lparr> kind = Read,
                           variables = UnionV [QuantifiedV ''a'' None, QuantifiedV ''b'' None] \<rparr>,
                        \<lparr> kind = Update, variables = QuantifiedV ''u'' None \<rparr>]])"
  using tryToUnpack_differing [of "[QuantifiedE ''e'', QuantifiedE ''f'']"
      "[ConcreteE [], ConcreteE [], ConcreteE []]" specExt "''l''"]
    tryToUnpack_differing [of "[ConcreteE [\<lparr> kind = Read, variables = QuantifiedV ''r'' None \<rparr>]]"
      "[ConcreteE [\<lparr> kind = Read, variables = QuantifiedV ''a'' None \<rparr>],
        ConcreteE [\<lparr> kind = Update, variables = QuantifiedV ''u'' None \<rparr>,
                   \<lparr> kind = Read, variables = QuantifiedV ''b'' None \<rparr>]]" specExt "''l''"]
  by (simp add: spec_defs combinedByKind_def groupedByKind_def firstOcc_def showNat.simps)

text \<open>
  The claim C3 as stated requires the single element of the shorter list to be concrete
  for unpacking to succeed. Unpacking a quantified effect against two concrete ones
  succeeds.
\<close>

theorem tryToUnpack_quantified_succeeds:
  "\<not> isConcreteE (QuantifiedE ''e'')
   \<and> tryToUnpack specExt ''l'' [QuantifiedE ''e'']
        [ConcreteE [\<lparr> kind = Read, variables = QuantifiedV ''a'' None \<rparr>],
         ConcreteE [\<lparr> kind = Read, variables = QuantifiedV ''b'' None \<rparr>]]
     = Inr ([QuantifiedE ''e''],
            [ConcreteE [\<lparr> kind = Read,
                           variables = UnionV [QuantifiedV ''a'' None, QuantifiedV ''b'' None] \<rparr>]])"
  by (simp add: tryToUnpack.simps unpacked_def spec_defs)
subsection \<open>The two parameter lists have one length\<close>

text \<open>
  Where \<open>unifyArrows\<close> pairs the parameters of the two arrows, the two lists have the same
  length: no parameter is without its partner.
\<close>

lemma tryToUnpack_lengths:
  "tryToUnpack ext loc es1 es2 = Inr (p1, p2) \<Longrightarrow> length p1 = 1 \<and> length p2 = 1"
proof (induction ext loc es1 es2 rule: tryToUnpack.induct)
  case (1 ext loc es1 es2)
  show ?case
  proof (cases "length es2 < length es1")
    case True
    with "1.prems" have "tryToUnpack ext loc es2 es1 = Inr (p1, p2)"
      by (subst (asm) tryToUnpack.simps) simp
    with True "1.IH" show ?thesis by simp
  next
    case False
    with "1.prems" show ?thesis
      by (subst (asm) tryToUnpack.simps) (auto split: if_splits)
  qed
qed

lemma simplifyArrowEffect_length:
  "length (fst (fst (simplifyArrowEffect ext ps r))) = length ps"
  by (induction ext ps r rule: simplifyArrowEffect.induct) simp_all

lemma unifyArrows_same_length:
  assumes "(if length ps1 = length ps2 then Inr (ps1, ps2) else tryToUnpack ext loc ps1 ps2)
             = Inr (p1, p2)"
  shows "length (fst (fst (simplifyArrowEffect ext p1 r1)))
           = length (fst (fst (simplifyArrowEffect ext p2 r2)))"
proof -
  from assms have "length p1 = length p2"
    by (auto split: if_splits dest: tryToUnpack_lengths)
  then show ?thesis by (simp add: simplifyArrowEffect_length)
qed

subsection \<open>Hashed variables of a unary arrow\<close>









subsection \<open>Equal printed forms\<close>

text \<open>
  Claim C5. If the printed forms of the simplified effects are the same string,
  \<open>unify\<close> returns the empty substitution (with any budget that lets it start).
\<close>

theorem print_equal_unify:
  "effectToString ext (simplify ext a) = effectToString ext (simplify ext b)
     \<Longrightarrow> unify ext (Suc fuel) a b = Some (Inr [])"
  by (simp add: Let_def)

theorem print_equal_unify_witness:
  "effectToString specExt (simplify specExt
       (ConcreteE [\<lparr> kind = Read, variables = QuantifiedV ''a'' None \<rparr>,
                   \<lparr> kind = Read, variables = QuantifiedV ''b'' None \<rparr>]))
     = effectToString specExt (simplify specExt
       (ConcreteE [\<lparr> kind = Read, variables = UnionV [QuantifiedV ''b'' None, QuantifiedV ''a'' None] \<rparr>]))
   \<and> unify specExt (Suc 0)
       (ConcreteE [\<lparr> kind = Read, variables = QuantifiedV ''a'' None \<rparr>,
                   \<lparr> kind = Read, variables = QuantifiedV ''b'' None \<rparr>])
       (ConcreteE [\<lparr> kind = Read, variables = UnionV [QuantifiedV ''b'' None, QuantifiedV ''a'' None] \<rparr>])
     = Some (Inr [])"
proof -
  have h: "effectToString specExt (simplify specExt
       (ConcreteE [\<lparr> kind = Read, variables = QuantifiedV ''a'' None \<rparr>,
                   \<lparr> kind = Read, variables = QuantifiedV ''b'' None \<rparr>]))
     = effectToString specExt (simplify specExt
       (ConcreteE [\<lparr> kind = Read, variables = UnionV [QuantifiedV ''b'' None, QuantifiedV ''a'' None] \<rparr>]))"
    by (simp add: spec_defs)
  from h print_equal_unify [OF h, of 0] show ?thesis by (rule conjI)
qed

subsection \<open>The occurs check\<close>

text \<open>
  Claim C6. Binding a name to a value among whose free names it occurs is refused with
  a cyclical-binding message, for effects (\<open>bindEffect\<close>, the effect names of the value)
  and for variables (\<open>bindVariables\<close>, the variable names of the value). The refusal
  does not depend on the value being another term than the quantified variable itself.
\<close>

theorem bind_cyclical:
  "(EffectName n \<in> set (effectNames e) \<longrightarrow>
      bindEffect ext n e =
        Inl (''Can't bind '' @ n @ '' to '' @ effectToString ext e @ '': cyclical binding''))
   \<and> (VariableName n \<in> set (variablesNames v) \<longrightarrow>
      bindVariables ext n v =
        Inl (''Can't bind '' @ n @ '' to '' @ variablesToString ext v @ '': cyclical binding''))"
  by (simp add: bindEffect_def bindVariables_def)

theorem bind_cyclical_witness:
  "EffectName ''e'' \<in> set (effectNames (ArrowE [QuantifiedE ''e''] (ConcreteE [])))
   \<and> bindEffect specExt ''e'' (ArrowE [QuantifiedE ''e''] (ConcreteE [])) =
     Inl ''Can't bind e to (e) => Pure: cyclical binding''
   \<and> VariableName ''v'' \<in> set (variablesNames (UnionV [QuantifiedV ''v'' None, ConcreteV []]))
   \<and> bindVariables specExt ''v'' (UnionV [QuantifiedV ''v'' None, ConcreteV []]) =
     Inl ''Can't bind v to v: cyclical binding''"
  using bind_cyclical [of "''e''" "ArrowE [QuantifiedE ''e''] (ConcreteE [])" specExt
      "UnionV [QuantifiedV ''e'' None]"]
    bind_cyclical [of "''v''" "QuantifiedE ''v''" specExt "UnionV [QuantifiedV ''v'' None, ConcreteV []]"]
  by (simp add: specExt_def variablesToStringSpec_def sortStrings_def)

subsection \<open>Two unions\<close>

text \<open>
  Claim C7, amended. When both variables are unions after flattening, \<open>unifyVariables\<close>
  returns without throwing: the empty substitution when the two flattened unions are
  structurally equal, and otherwise the error
  \<open>Unification for unions of variables is not implemented\<close>.
\<close>

theorem union_union:
  assumes "flattenUnions ext va = UnionV xs" and "flattenUnions ext vb = UnionV ys"
  shows "unifyVariables ext (Suc fuel) va vb =
           (if xs = ys then Some (Inr [])
            else Some (Inl (ErrorTree
                   (''Trying to unify variables ['' @ variablesToString ext (UnionV xs) @ ''] and [''
                     @ variablesToString ext (UnionV ys) @ '']'')
                   (Some ''Unification for unions of variables is not implemented'') [])))"
  using assms by (simp add: Let_def)

theorem union_union_witness:
  "flattenUnions specExt (UnionV [QuantifiedV ''a'' None, QuantifiedV ''b'' None])
     = UnionV [QuantifiedV ''a'' None, QuantifiedV ''b'' None]
   \<and> flattenUnions specExt (UnionV [QuantifiedV ''b'' None, UnionV [QuantifiedV ''c'' None]])
     = UnionV [QuantifiedV ''b'' None, QuantifiedV ''c'' None]
   \<and> unifyVariables specExt (Suc 0) (UnionV [QuantifiedV ''a'' None, QuantifiedV ''b'' None])
        (UnionV [QuantifiedV ''b'' None, UnionV [QuantifiedV ''c'' None]])
     = Some (Inl (ErrorTree ''Trying to unify variables [a, b] and [b, c]''
                   (Some ''Unification for unions of variables is not implemented'') []))"
proof -
  have h1: "flattenUnions specExt (UnionV [QuantifiedV ''a'' None, QuantifiedV ''b'' None])
     = UnionV [QuantifiedV ''a'' None, QuantifiedV ''b'' None]"
    by (simp add: specExt_def)
  have h2: "flattenUnions specExt (UnionV [QuantifiedV ''b'' None, UnionV [QuantifiedV ''c'' None]])
     = UnionV [QuantifiedV ''b'' None, QuantifiedV ''c'' None]"
    by (simp add: specExt_def)
  from union_union [OF h1 h2, of 0]
  have "unifyVariables specExt (Suc 0) (UnionV [QuantifiedV ''a'' None, QuantifiedV ''b'' None])
        (UnionV [QuantifiedV ''b'' None, UnionV [QuantifiedV ''c'' None]])
     = Some (Inl (ErrorTree ''Trying to unify variables [a, b] and [b, c]''
                   (Some ''Unification for unions of variables is not implemented'') []))"
    by (simp add: spec_defs)
  with h1 h2 show ?thesis by simp
qed

text \<open>
  The claim C7 as stated has the unification of two unions never succeed. Two equal unions
  unify with the empty substitution.
\<close>

theorem union_union_equal_succeeds:
  "flattenUnions specExt (UnionV [QuantifiedV ''a'' None, QuantifiedV ''b'' None])
     = UnionV [QuantifiedV ''a'' None, QuantifiedV ''b'' None]
   \<and> unifyVariables specExt (Suc 0) (UnionV [QuantifiedV ''a'' None, QuantifiedV ''b'' None])
        (UnionV [QuantifiedV ''a'' None, QuantifiedV ''b'' None])
     = Some (Inr [])"
  by (simp add: specExt_def)

section \<open>Properties of the inferrer\<close>

subsection \<open>The scheme of a lambda\<close>

lemma mapGet_mapSet: "mapGet (mapSet k v m) j = (if j = k then Some v else mapGet m j)"
  by (induction m) (auto simp add: mapGet_def)

lemma mapSet_nonempty: "mapSet k v m \<noteq> []"
  by (cases m) (auto split: if_splits)

lemma nonFreeNames_sets:
  "set (fst (foldl (\<lambda>(effectVars, entityVars) p.
              (firstOcc (effectVars @ effectVariablesOf p),
               firstOcc (entityVars @ entityVariablesOf p))) acc ps))
     = set (fst acc) \<union> (\<Union>p \<in> set ps. set (effectVariablesOf p))
   \<and> set (snd (foldl (\<lambda>(effectVars, entityVars) p.
              (firstOcc (effectVars @ effectVariablesOf p),
               firstOcc (entityVars @ entityVariablesOf p))) acc ps))
     = set (snd acc) \<union> (\<Union>p \<in> set ps. set (entityVariablesOf p))"
proof (induction ps arbitrary: acc)
  case Nil
  show ?case by simp
next
  case (Cons p ps)
  obtain a b where acc: "acc = (a, b)" by (cases acc)
  show ?case unfolding acc using Cons [of "(firstOcc (a @ effectVariablesOf p), firstOcc (b @ entityVariablesOf p))"]
    by (auto simp add: set_firstOcc)
qed

lemma nonFreeNames_set:
  "set (fst (nonFreeNames ps)) = (\<Union>p \<in> set ps. set (effectVariablesOf p))"
  "set (snd (nonFreeNames ps)) = (\<Union>p \<in> set ps. set (entityVariablesOf p))"
  using nonFreeNames_sets [of "([], [])" ps] by (simp_all add: nonFreeNames_def)

lemma hasErrors_addToResults_Inl: "hasErrors (addToResults i (Inl err) st)"
  by (simp add: hasErrors_def addToResults_def mapSet_nonempty)

lemma mergeEithers_Inr: "mergeEithers rs = Inr xs \<Longrightarrow> rs = map Inr xs"
proof (induction rs arbitrary: xs)
  case Nil
  then show ?case by (simp add: mergeEithers_def)
next
  case (Cons r rs)
  show ?case
  proof (cases r)
    case (Inl e)
    with Cons.prems show ?thesis by (simp add: mergeEithers_def)
  next
    case (Inr x)
    with Cons.prems have "mergeEithers rs = Inr (rights rs)" and "xs = x # rights rs"
      by (auto simp add: mergeEithers_def split: list.splits)
    with Cons.IH Inr show ?thesis by simp
  qed
qed

text \<open>
  When \<open>exitLambda\<close> runs with no error recorded, returns and records no error, the
  body's result was a success, and the scheme stored at the lambda's id has the effect
  (parameter effects) \<open>\<Rightarrow>\<close> body effect: the arrow from the parameters' effects to the
  body's effect, as its instance under the running substitutions. Its effect-variable and
  entity-variable quantifier sets are exactly the effect names and the entity names that
  occur in the parameters of that arrow; a name that occurs only in the result is in
  neither.
\<close>

theorem exitLambda_scheme:
  assumes "\<not> hasErrors st"
    and "exitLambda env i params bodyId st = Returns st'"
    and "\<not> hasErrors st'"
  shows "\<exists>body pes st1 inst ps r.
           fetchResult st bodyId = Returns (Inr body)
         \<and> paramEffects env params bodyId st = Returns (map Inr pes, st1)
         \<and> newInstanceUnbound env (body\<lparr>effect := ArrowE pes (effect body)\<rparr>) = Returns inst
         \<and> applySubstitution (collaborators env) (substitutions st1) inst = Inr (ArrowE ps r)
         \<and> mapGet (effects st') i =
             Some \<lparr> effect = ArrowE ps r,
                    effectVariables = fst (nonFreeNames ps),
                    entityVariables = snd (nonFreeNames ps) \<rparr>
         \<and> set (fst (nonFreeNames ps)) = (\<Union>p \<in> set ps. set (effectVariablesOf p))
         \<and> set (snd (nonFreeNames ps)) = (\<Union>p \<in> set ps. set (entityVariablesOf p))"
proof -
  from assms(1,2) obtain exprResult where fr: "fetchResult st bodyId = Returns exprResult"
    by (cases "fetchResult st bodyId") (auto simp add: exitLambda_def)
  from assms(1,2) fr obtain rs st1 where pe: "paramEffects env params bodyId st = Returns (rs, st1)"
    by (cases "paramEffects env params bodyId st") (auto simp add: exitLambda_def)
  from assms fr pe obtain body where body: "exprResult = Inr body"
    by (cases exprResult) (auto simp add: exitLambda_def hasErrors_addToResults_Inl)
  from assms fr pe body obtain pes where pes: "mergeEithers rs = Inr pes"
    by (cases "mergeEithers rs") (auto simp add: exitLambda_def hasErrors_addToResults_Inl)
  then have rs: "rs = map Inr pes" by (rule mergeEithers_Inr)
  let ?scheme = "body\<lparr>effect := ArrowE pes (effect body)\<rparr>"
  from assms fr pe body pes obtain inst where inst: "newInstanceUnbound env ?scheme = Returns inst"
    by (cases "newInstanceUnbound env ?scheme") (auto simp add: exitLambda_def)
  from assms fr pe body pes inst obtain eff
    where eff: "applySubstitution (collaborators env) (substitutions st1) inst = Inr eff"
    by (cases "applySubstitution (collaborators env) (substitutions st1) inst")
      (auto simp add: exitLambda_def hasErrors_addToResults_Inl)
  from assms fr pe body pes inst eff obtain ps r where arrow: "eff = ArrowE ps r"
    by (cases eff) (auto simp add: exitLambda_def)
  from assms fr pe body pes inst eff arrow
  have "st' = addToResults i (Inr \<lparr> effect = ArrowE ps r,
                             effectVariables = fst (nonFreeNames ps),
                             entityVariables = snd (nonFreeNames ps) \<rparr>) st1"
    by (simp add: exitLambda_def)
  then have "mapGet (effects st') i = Some \<lparr> effect = ArrowE ps r,
                    effectVariables = fst (nonFreeNames ps),
                    entityVariables = snd (nonFreeNames ps) \<rparr>"
    by (simp add: addToResults_def mapGet_mapSet)
  with fr body pe rs inst eff arrow nonFreeNames_set [of ps] show ?thesis by blast
qed


theorem exitLambda_scheme_witness:
  "\<not> hasErrors
      \<lparr> effects = [(7, toScheme (ConcreteE [\<lparr> kind = Read,
                       variables = UnionV [QuantifiedV ''v1'' None, QuantifiedV ''w'' None] \<rparr>]))],
        errors = [],
        substitutions = [SubEffect ''e_x_7''
                           (ConcreteE [\<lparr> kind = Read, variables = QuantifiedV ''v1'' None \<rparr>])],
        freshVarCounter = 2,
        location = ''Inferring effect for body'' \<rparr>
   \<and> exitLambda
      \<lparr> collaborators = specExt,
        lookupValue = (\<lambda>n i. if n = ''x'' then Some (Definition ParamDef (Some 7)) else None),
        builtinSignatures = (\<lambda>n. None),
        expressionToString = (\<lambda>e. ''body'') \<rparr>
      5 [''x''] 7
      \<lparr> effects = [(7, toScheme (ConcreteE [\<lparr> kind = Read,
                       variables = UnionV [QuantifiedV ''v1'' None, QuantifiedV ''w'' None] \<rparr>]))],
        errors = [],
        substitutions = [SubEffect ''e_x_7''
                           (ConcreteE [\<lparr> kind = Read, variables = QuantifiedV ''v1'' None \<rparr>])],
        freshVarCounter = 2,
        location = ''Inferring effect for body'' \<rparr>
     = Returns
      \<lparr> effects = [(7, toScheme (ConcreteE [\<lparr> kind = Read,
                       variables = UnionV [QuantifiedV ''v1'' None, QuantifiedV ''w'' None] \<rparr>])),
                   (5, \<lparr> effect = ArrowE
                           [ConcreteE [\<lparr> kind = Read, variables = QuantifiedV ''v1'' None \<rparr>]]
                           (ConcreteE [\<lparr> kind = Read,
                              variables = UnionV [QuantifiedV ''v1'' None, QuantifiedV ''w'' None] \<rparr>]),
                         effectVariables = [], entityVariables = [''v1''] \<rparr>)],
        errors = [],
        substitutions = [SubEffect ''e_x_7''
                           (ConcreteE [\<lparr> kind = Read, variables = QuantifiedV ''v1'' None \<rparr>])],
        freshVarCounter = 2,
        location = ''Inferring effect for body'' \<rparr>
   \<and> set [''v1''] = (\<Union>p \<in> set [ConcreteE [\<lparr> kind = Read, variables = QuantifiedV ''v1'' None \<rparr>]].
                        set (entityVariablesOf p))"
proof -
  let ?env = "\<lparr> collaborators = specExt,
        lookupValue = (\<lambda>n i. if n = ''x'' then Some (Definition ParamDef (Some 7)) else None),
        builtinSignatures = (\<lambda>n. None),
        expressionToString = (\<lambda>e. ''body'') \<rparr>"
  let ?st = "\<lparr> effects = [(7, toScheme (ConcreteE [\<lparr> kind = Read,
                       variables = UnionV [QuantifiedV ''v1'' None, QuantifiedV ''w'' None] \<rparr>]))],
        errors = [],
        substitutions = [SubEffect ''e_x_7''
                           (ConcreteE [\<lparr> kind = Read, variables = QuantifiedV ''v1'' None \<rparr>])],
        freshVarCounter = 2,
        location = ''Inferring effect for body'' \<rparr>"
  let ?st' = "\<lparr> effects = [(7, toScheme (ConcreteE [\<lparr> kind = Read,
                       variables = UnionV [QuantifiedV ''v1'' None, QuantifiedV ''w'' None] \<rparr>])),
                   (5, \<lparr> effect = ArrowE
                           [ConcreteE [\<lparr> kind = Read, variables = QuantifiedV ''v1'' None \<rparr>]]
                           (ConcreteE [\<lparr> kind = Read,
                              variables = UnionV [QuantifiedV ''v1'' None, QuantifiedV ''w'' None] \<rparr>]),
                         effectVariables = [], entityVariables = [''v1''] \<rparr>)],
        errors = [],
        substitutions = [SubEffect ''e_x_7''
                           (ConcreteE [\<lparr> kind = Read, variables = QuantifiedV ''v1'' None \<rparr>])],
        freshVarCounter = 2,
        location = ''Inferring effect for body'' \<rparr>"
  have h1: "\<not> hasErrors ?st" by (simp add: hasErrors_def)
  have h2: "exitLambda ?env 5 [''x''] 7 ?st = Returns ?st'"
    by (simp add: exitLambda_def hasErrors_def fetchResult_def mapGet_def fetchSignature_def
        falsy_def showInt_def showNat.simps mergeEithers_def newInstanceUnbound_def
        instantiate_def toScheme_def spec_defs nonFreeNames_def firstOcc_def
        effectVariablesOf_def entityVariablesOf_def addToResults_def)
  have h3: "\<not> hasErrors ?st'" by (simp add: hasErrors_def)
  from exitLambda_scheme [OF h1 h2 h3] h1 h2 show ?thesis
    by (simp add: entityVariablesOf_def)
qed

text \<open>
  Claim C8. The claim has the scheme of a lambda stored at its id whenever the inference
  of its body succeeded. For the lambda \<open>(y) => ((x) => x)\<close> it is not: the walk of the
  body \<open>(x) => x\<close> succeeds and stores at its id a scheme that quantifies \<open>e_x_2\<close>; then
  \<open>exitLambda\<close> of the outer lambda instantiates that scheme with \<open>newInstance\<close> run
  without its receiver, which throws on minting the fresh name, so nothing is stored at
  the id of the outer lambda, and the run of \<open>inferEffects\<close> over a module that holds it
  ends with the exception.
\<close>

theorem exitLambda_unbound_throws:
  "walkExpression
     \<lparr> collaborators = specExt,
       lookupValue = (\<lambda>n i. if n = ''x'' then Some (Definition ParamDef (Some 2))
                             else if n = ''y'' then Some (Definition ParamDef (Some 3)) else None),
       builtinSignatures = (\<lambda>n. None), expressionToString = (\<lambda>e. ''e'') \<rparr> 0
     (QuintLambda 2 [''x''] (QuintName 1 ''x'')) initialState
     = Some (Returns
        \<lparr> effects = [(1, toScheme (QuantifiedE ''e_x_2'')),
                     (2, \<lparr> effect = ArrowE [QuantifiedE ''e_x_2''] (QuantifiedE ''e_x_2''),
                           effectVariables = [''e_x_2''], entityVariables = [] \<rparr>)],
          errors = [], substitutions = [], freshVarCounter = 0,
          location = ''Inferring effect for e'' \<rparr>)
   \<and> exitLambda
     \<lparr> collaborators = specExt,
       lookupValue = (\<lambda>n i. if n = ''x'' then Some (Definition ParamDef (Some 2))
                             else if n = ''y'' then Some (Definition ParamDef (Some 3)) else None),
       builtinSignatures = (\<lambda>n. None), expressionToString = (\<lambda>e. ''e'') \<rparr>
     3 [''y''] 2
        \<lparr> effects = [(1, toScheme (QuantifiedE ''e_x_2'')),
                     (2, \<lparr> effect = ArrowE [QuantifiedE ''e_x_2''] (QuantifiedE ''e_x_2''),
                           effectVariables = [''e_x_2''], entityVariables = [] \<rparr>)],
          errors = [], substitutions = [], freshVarCounter = 0,
          location = ''Inferring effect for e'' \<rparr>
     = Throws ''TypeError''
   \<and> walkExpression
     \<lparr> collaborators = specExt,
       lookupValue = (\<lambda>n i. if n = ''x'' then Some (Definition ParamDef (Some 2))
                             else if n = ''y'' then Some (Definition ParamDef (Some 3)) else None),
       builtinSignatures = (\<lambda>n. None), expressionToString = (\<lambda>e. ''e'') \<rparr> 0
     (QuintLambda 3 [''y''] (QuintLambda 2 [''x''] (QuintName 1 ''x''))) initialState
     = Some (Throws ''TypeError'')
   \<and> inferEffects
     \<lparr> collaborators = specExt,
       lookupValue = (\<lambda>n i. if n = ''x'' then Some (Definition ParamDef (Some 2))
                             else if n = ''y'' then Some (Definition ParamDef (Some 3)) else None),
       builtinSignatures = (\<lambda>n. None), expressionToString = (\<lambda>e. ''e'') \<rparr> 0
     \<lparr> moduleName = ''m'',
       defs = [QuintOpDef 4 ''f''
                 (QuintLambda 3 [''y''] (QuintLambda 2 [''x''] (QuintName 1 ''x'')))] \<rparr>
     = Some (Throws ''TypeError'')"
  by code_simp

subsection \<open>Errors and the rest of the run\<close>

lemma skipped_Nil: "skipped env [] st = st"
  by (simp add: skipped_def)

lemma skipped_append: "skipped env (xs @ ys) st = skipped env ys (skipped env xs st)"
  by (simp add: skipped_def)

lemma hasErrors_skipped: "hasErrors (skipped env xs st) = hasErrors st"
  by (simp add: skipped_def hasErrors_def)

lemma enterExpr_skipped: "\<not> isLiteral e \<Longrightarrow> enterExpr env e st = skipped env [e] st"
  by (simp add: skipped_def enterExpr_def)

lemma exitLiteral_skipped:
  "isLiteral e \<Longrightarrow> exitLiteral (exprId e) (enterExpr env e st) = Returns (skipped env [e] st)"
  by (simp add: skipped_def enterExpr_def exitLiteral_def addToResults_def pureScheme_def)

lemma handlers_return:
  assumes "hasErrors st"
  shows "exitName env i n st = Returns st"
    and "exitApp env fuel x i opcode args st = Some (Returns st)"
    and "exitLambda env i ps bodyId st = Returns st"
    and "exitLet i bodyId st = Returns st"
    and "exitOpDef i bodyId st = Returns st"
  using assms by (simp_all add: exitName_def exitApp_def exitLambda_def exitLet_def exitOpDef_def)

lemma walk_skipped:
  "(hasErrors st \<longrightarrow> walkExpression env fuel e st = Some (Returns (skipped env (entered e) st)))"
  "(hasErrors st \<longrightarrow> walkExpressions env fuel es st = Some (Returns (skipped env (enteredList es) st)))"
  "(hasErrors st \<longrightarrow> walkDefinition env fuel d st = Some (Returns (skipped env (enteredDef d) st)))"
proof (induction env fuel e st and env fuel es st and env fuel d st
    rule: walkExpression_walkExpressions_walkDefinition.induct)
  case (1 env fuel i n st)
  show ?case using enterExpr_skipped [of "QuintName i n" env st]
    by (simp add: handlers_return hasErrors_skipped)
next
  case (2 env fuel i b st)
  show ?case using exitLiteral_skipped [of "QuintBool i b" env st] by simp
next
  case (3 env fuel i v st)
  show ?case using exitLiteral_skipped [of "QuintInt i v" env st] by simp
next
  case (4 env fuel i s st)
  show ?case using exitLiteral_skipped [of "QuintStr i s" env st] by simp
next
  case (5 env fuel i opcode args st)
  show ?case
  proof
    assume h: "hasErrors st"
    let ?e = "QuintApp i opcode args"
    have en: "enterExpr env ?e st = skipped env [?e] st" by (simp add: enterExpr_skipped)
    from h have h0: "hasErrors (skipped env [?e] st)" by (simp add: hasErrors_skipped)
    with 5 en have "walkExpressions env fuel args (enterExpr env ?e st)
        = Some (Returns (skipped env (enteredList args) (skipped env [?e] st)))" by simp
    moreover have "hasErrors (skipped env (enteredList args) (skipped env [?e] st))"
      using h0 by (simp add: hasErrors_skipped)
    ultimately show "walkExpression env fuel ?e st = Some (Returns (skipped env (entered ?e) st))"
      using skipped_append [of env "[?e]" "enteredList args" st]
      by (simp add: andThen_def handlers_return)
  qed
next
  case (6 env fuel i ps body st)
  show ?case
  proof
    assume h: "hasErrors st"
    let ?e = "QuintLambda i ps body"
    have en: "enterExpr env ?e st = skipped env [?e] st" by (simp add: enterExpr_skipped)
    from h have h0: "hasErrors (skipped env [?e] st)" by (simp add: hasErrors_skipped)
    with 6 en have "walkExpression env fuel body (enterExpr env ?e st)
        = Some (Returns (skipped env (entered body) (skipped env [?e] st)))" by simp
    moreover have "hasErrors (skipped env (entered body) (skipped env [?e] st))"
      using h0 by (simp add: hasErrors_skipped)
    ultimately show "walkExpression env fuel ?e st = Some (Returns (skipped env (entered ?e) st))"
      using skipped_append [of env "[?e]" "entered body" st]
      by (simp add: andThen_def handlers_return)
  qed
next
  case (7 env fuel i opdef body st)
  show ?case
  proof
    assume h: "hasErrors st"
    let ?e = "QuintLet i opdef body"
    let ?s0 = "skipped env [?e] st"
    let ?s1 = "skipped env (enteredDef opdef) ?s0"
    let ?s2 = "skipped env (entered body) ?s1"
    have en: "enterExpr env ?e st = ?s0" by (simp add: enterExpr_skipped)
    from h have h0: "hasErrors ?s0" by (simp add: hasErrors_skipped)
    then have h1: "hasErrors ?s1" by (simp add: hasErrors_skipped)
    then have h2: "hasErrors ?s2" by (simp add: hasErrors_skipped)
    from 7(1) en h0 have a: "walkDefinition env fuel opdef (enterExpr env ?e st) = Some (Returns ?s1)"
      by simp
    from 7(2) h1 have b: "walkExpression env fuel body ?s1 = Some (Returns ?s2)" by simp
    have c: "?s2 = skipped env (entered ?e) st"
      using skipped_append [of env "[?e]" "enteredDef opdef @ entered body" st]
        skipped_append [of env "enteredDef opdef" "entered body" ?s0]
      by simp
    from a b h2 have "walkExpression env fuel ?e st = Some (Returns ?s2)"
      by (simp add: andThen_def handlers_return)
    with c show "walkExpression env fuel ?e st = Some (Returns (skipped env (entered ?e) st))"
      by simp
  qed
next
  case (8 env fuel st)
  show ?case by (simp add: skipped_Nil)
next
  case (9 env fuel e es st)
  show ?case
  proof
    assume h: "hasErrors st"
    let ?s1 = "skipped env (entered e) st"
    from 9(1) h have a: "walkExpression env fuel e st = Some (Returns ?s1)" by simp
    from h have h1: "hasErrors ?s1" by (simp add: hasErrors_skipped)
    with 9(2) have b: "walkExpressions env fuel es ?s1
        = Some (Returns (skipped env (enteredList es) ?s1))" by simp
    from a b show "walkExpressions env fuel (e # es) st
        = Some (Returns (skipped env (enteredList (e # es)) st))"
      by (simp add: andThen_def skipped_append)
  qed
next
  case (10 env fuel i n body st)
  show ?case
  proof
    assume h: "hasErrors st"
    let ?s1 = "skipped env (entered body) st"
    from 10 h have a: "walkExpression env fuel body st = Some (Returns ?s1)" by simp
    from h have h1: "hasErrors ?s1" by (simp add: hasErrors_skipped)
    with a show "walkDefinition env fuel (QuintOpDef i n body) st
        = Some (Returns (skipped env (enteredDef (QuintOpDef i n body)) st))"
      by (simp add: andThen_def handlers_return)
  qed
qed

lemma walkDefinitions_skipped:
  "hasErrors st \<Longrightarrow>
     walkDefinitions env fuel ds st = Some (Returns (skipped env (concat (map enteredDef ds)) st))"
proof (induction ds arbitrary: st)
  case Nil
  show ?case by (simp add: skipped_Nil)
next
  case (Cons d ds)
  let ?s1 = "skipped env (enteredDef d) st"
  from Cons.prems have a: "walkDefinition env fuel d st = Some (Returns ?s1)"
    by (simp add: walk_skipped)
  from Cons.prems have "hasErrors ?s1" by (simp add: hasErrors_skipped)
  from Cons.IH [OF this] a show ?case by (simp add: andThen_def skipped_append)
qed

lemma mapGet_foldl_pure:
  "mapGet (foldl (\<lambda>m e. mapSet (exprId e) pureScheme m) m0 ys) j =
     (if j \<in> exprId ` set ys then Some pureScheme else mapGet m0 j)"
  by (induction ys arbitrary: m0) (auto simp add: mapGet_mapSet)

lemma skipped_frame:
  "errors (skipped env xs st) = errors st"
  "substitutions (skipped env xs st) = substitutions st"
  "freshVarCounter (skipped env xs st) = freshVarCounter st"
  "mapGet (effects (skipped env xs st)) j =
     (if j \<in> exprId ` set (filter isLiteral xs) then Some pureScheme else mapGet (effects st) j)"
  by (simp_all add: skipped_def mapGet_foldl_pure)

text \<open>
  Claim C2, amended. Once an error is recorded, the handler of a name, of an
  application, of a lambda, of a let and of an operator definition returns at once and
  leaves the state as it is. So the walk of any expression, definition or module from a
  state with an error returns, and the state it returns is that state where only the
  literals have recorded: the pure scheme is set at the id of each literal entered, the
  location is that of the last expression entered, and nothing else differs. The error
  map and the substitutions are those of before, and the result map has the pure scheme
  at the ids of the literals and its entries of before at every other id. So the parents
  of the errored node record no result, and neither a result nor an error is recorded for
  the nodes visited later, the unrelated siblings included, apart from the pure schemes of
  literals.
\<close>

theorem errors_halt_inference:
  assumes "hasErrors st"
  shows "exitName env i n st = Returns st
       \<and> exitApp env fuel x i opcode args st = Some (Returns st)
       \<and> exitLambda env i ps bodyId st = Returns st
       \<and> exitLet i bodyId st = Returns st
       \<and> exitOpDef i bodyId st = Returns st
       \<and> walkExpression env fuel e st = Some (Returns (skipped env (entered e) st))
       \<and> walkDefinition env fuel d st = Some (Returns (skipped env (enteredDef d) st))
       \<and> walkModule env fuel m st
           = Some (Returns (skipped env (concat (map enteredDef (defs m))) st))
       \<and> errors (skipped env xs st) = errors st
       \<and> substitutions (skipped env xs st) = substitutions st
       \<and> mapGet (effects (skipped env xs st)) j =
           (if j \<in> exprId ` set (filter isLiteral xs) then Some pureScheme
            else mapGet (effects st) j)"
  using assms
  by (simp add: handlers_return walk_skipped walkDefinitions_skipped walkModule_def skipped_frame)


theorem errors_halt_inference_witness:
  "hasErrors
     \<lparr> effects = [(9, toScheme (QuantifiedE ''e_p_9''))],
       errors = [(1, ErrorTree ''Inferring effect for x'' None [])],
       substitutions = [], freshVarCounter = 0, location = ''Inferring effect for x'' \<rparr>
   \<and> exitName
     \<lparr> collaborators = specExt, lookupValue = (\<lambda>n i. None), builtinSignatures = (\<lambda>n. None),
       expressionToString = (\<lambda>e. case e of QuintName i n \<Rightarrow> n | _ \<Rightarrow> ''...'') \<rparr> 3 ''y''
     \<lparr> effects = [(9, toScheme (QuantifiedE ''e_p_9''))],
       errors = [(1, ErrorTree ''Inferring effect for x'' None [])],
       substitutions = [], freshVarCounter = 0, location = ''Inferring effect for x'' \<rparr>
     = Returns
     \<lparr> effects = [(9, toScheme (QuantifiedE ''e_p_9''))],
       errors = [(1, ErrorTree ''Inferring effect for x'' None [])],
       substitutions = [], freshVarCounter = 0, location = ''Inferring effect for x'' \<rparr>
   \<and> walkModule
     \<lparr> collaborators = specExt, lookupValue = (\<lambda>n i. None), builtinSignatures = (\<lambda>n. None),
       expressionToString = (\<lambda>e. case e of QuintName i n \<Rightarrow> n | _ \<Rightarrow> ''...'') \<rparr> 0
     \<lparr> moduleName = ''m'',
       defs = [QuintOpDef 4 ''b'' (QuintName 3 ''y''),
               QuintOpDef 8 ''c'' (QuintApp 7 ''f'' [QuintInt 5 42, QuintName 6 ''z''])] \<rparr>
     \<lparr> effects = [(9, toScheme (QuantifiedE ''e_p_9''))],
       errors = [(1, ErrorTree ''Inferring effect for x'' None [])],
       substitutions = [], freshVarCounter = 0, location = ''Inferring effect for x'' \<rparr>
     = Some (Returns
     \<lparr> effects = [(9, toScheme (QuantifiedE ''e_p_9'')), (5, pureScheme)],
       errors = [(1, ErrorTree ''Inferring effect for x'' None [])],
       substitutions = [], freshVarCounter = 0, location = ''Inferring effect for z'' \<rparr>)"
proof -
  let ?env = "\<lparr> collaborators = specExt, lookupValue = (\<lambda>n i. None),
       builtinSignatures = (\<lambda>n. None),
       expressionToString = (\<lambda>e. case e of QuintName i n \<Rightarrow> n | _ \<Rightarrow> ''...'') \<rparr>"
  let ?m = "\<lparr> moduleName = ''m'',
       defs = [QuintOpDef 4 ''b'' (QuintName 3 ''y''),
               QuintOpDef 8 ''c'' (QuintApp 7 ''f'' [QuintInt 5 42, QuintName 6 ''z''])] \<rparr>"
  let ?st = "\<lparr> effects = [(9, toScheme (QuantifiedE ''e_p_9''))],
       errors = [(1, ErrorTree ''Inferring effect for x'' None [])],
       substitutions = [], freshVarCounter = 0, location = ''Inferring effect for x'' \<rparr>"
  have h: "hasErrors ?st" by (simp add: hasErrors_def)
  from errors_halt_inference [OF h, where env = ?env and i = 3 and n = "''y''" and m = ?m and fuel = 0]
  have "exitName ?env 3 ''y'' ?st = Returns ?st"
    and "walkModule ?env 0 ?m ?st = Some (Returns (skipped ?env (concat (map enteredDef (defs ?m))) ?st))"
    by blast+
  with h show ?thesis by (simp add: skipped_def)
qed

text \<open>
  The claim C2 as stated has the run record the error of every independently erroneous
  subtree. In a module of two definitions whose bodies are two names that are not in the
  lookup table, the run records the error of the first and nothing for the second, which
  the run over the second definition alone does record.
\<close>

theorem sibling_error_not_recorded:
  "(case inferEffects
       \<lparr> collaborators = specExt, lookupValue = (\<lambda>n i. None), builtinSignatures = (\<lambda>n. None),
         expressionToString = (\<lambda>e. case e of QuintName i n \<Rightarrow> n | _ \<Rightarrow> ''...'') \<rparr> 0
       \<lparr> moduleName = ''m'', defs = [QuintOpDef 2 ''a'' (QuintName 1 ''x''),
                                     QuintOpDef 4 ''b'' (QuintName 3 ''y'')] \<rparr> of
      Some (Returns st) \<Rightarrow> map fst (errors st) = [1] \<and> mapGet (errors st) 3 = None
    | _ \<Rightarrow> False)
   \<and> (case inferEffects
       \<lparr> collaborators = specExt, lookupValue = (\<lambda>n i. None), builtinSignatures = (\<lambda>n. None),
         expressionToString = (\<lambda>e. case e of QuintName i n \<Rightarrow> n | _ \<Rightarrow> ''...'') \<rparr> 0
       \<lparr> moduleName = ''m'', defs = [QuintOpDef 4 ''b'' (QuintName 3 ''y'')] \<rparr> of
      Some (Returns st) \<Rightarrow> map fst (errors st) = [3]
    | _ \<Rightarrow> False)"
  by (simp add: inferEffects_def walkModule_def initialState_def andThen_def exitName_def
      exitOpDef_def enterExpr_def hasErrors_def addToResults_def mapGet_def)

end
